theory Spec2Isabelle
  imports Complex_Main "HOL-Library.AList"
begin

section \<open>The conversion worker (src/lib/workers/worker.js)\<close>

text \<open>
  The worker receives task messages and answers each through a promise. It owns three
  pieces of process-wide state: the flag \<open>rebuildCache\<close>, the cache of compiled templates
  \<open>compileCache\<close> and the configuration object \<open>constants\<close>; the template engine instance
  lives in the module \<open>handlebars-converter\<close>. Everything else is delegated to
  collaborators (the JSON built-ins, \<open>Buffer\<close>, the file system, the template
  pre-processor, the engine's compiler, the output processors), which are parameters of
  the model.
\<close>

subsection \<open>Values\<close>

text \<open>
  A number as \<open>JSON.parse\<close> returns it: finite, or an infinity, which is what a literal
  beyond the range of a double is parsed to. The sign of zero is not kept.
\<close>

datatype number = Finite real | PlusInfinity | MinusInfinity

text \<open>
  What \<open>JSON.parse\<close> returns. An object is the list of its own properties, one entry per
  key, in the order of \<open>Object.entries\<close>.
\<close>

datatype json =
    JNull
  | JBool bool
  | JNum number
  | JStr string
  | JArr "json list"
  | JObj "(string \<times> json) list"

text \<open>A thrown error object: its \<open>name\<close> and its \<open>message\<close>.\<close>

datatype exn = Exn (exn_name: string) (exn_message: string)

text \<open>\<open>err.toString()\<close> of an error object (Error.prototype.toString).\<close>

definition err_toString :: "exn \<Rightarrow> string" where
  "err_toString err =
     (if exn_message err = [] then exn_name err
      else if exn_name err = [] then exn_message err
      else exn_name err @ '': '' @ exn_message err)"

text \<open>
  Modelled from the spec: the module \<open>../error/error\<close> is not among the sources. The spec
  says that all errors are represented as \<open>{kind, message}\<close>, of the kinds \<open>BadRequest\<close> and
  \<open>NotFound\<close>.
\<close>

datatype errorCodes = BadRequest | NotFound

record error_descriptor =
  kind :: errorCodes
  message :: string

definition errorMessage :: "errorCodes \<Rightarrow> string \<Rightarrow> error_descriptor" where
  "errorMessage code text = \<lparr>kind = code, message = text\<rparr>"

text \<open>
  The object a conversion task settles with, \<open>{status, resultMsg}\<close>: the result message is
  the success envelope or an error descriptor.
\<close>

datatype result_msg = Envelope json | Descriptor error_descriptor

record response =
  status :: nat
  resultMsg :: result_msg

text \<open>
  The argument of \<open>fulfill\<close> or \<open>reject\<close>: a response object, nothing at all
  (\<open>fulfill()\<close>), or an error object that was thrown and not caught by the handler.
\<close>

datatype settle_arg = Response response | NoValue | Raised exn

datatype settlement = Fulfilled settle_arg | Rejected settle_arg

subsection \<open>Promises\<close>

text \<open>
  A promise is pending until its first settlement; \<open>fulfill\<close> and \<open>reject\<close> on a settled
  promise do nothing (the \<open>promise\<close> package, Promises/A+).
\<close>

datatype promise = Pending | Settled settlement

definition fulfill :: "promise \<Rightarrow> settle_arg \<Rightarrow> promise" where
  "fulfill p v = (case p of Pending \<Rightarrow> Settled (Fulfilled v) | Settled s \<Rightarrow> Settled s)"

definition reject :: "promise \<Rightarrow> settle_arg \<Rightarrow> promise" where
  "reject p v = (case p of Pending \<Rightarrow> Settled (Rejected v) | Settled s \<Rightarrow> Settled s)"

text \<open>The two shapes of rejection the handler builds.\<close>

definition bad_request :: "string \<Rightarrow> settle_arg" where
  "bad_request text = Response \<lparr>status = 400, resultMsg = Descriptor (errorMessage BadRequest text)\<rparr>"

definition not_found :: "string \<Rightarrow> settle_arg" where
  "not_found text = Response \<lparr>status = 404, resultMsg = Descriptor (errorMessage NotFound text)\<rparr>"

definition ok :: "json \<Rightarrow> settle_arg" where
  "ok result = Response \<lparr>status = 200, resultMsg = Envelope result\<rparr>"

subsection \<open>The engine instance\<close>

text \<open>
  Modelled from the spec: the engine handle of the module \<open>handlebars-converter\<close>, which is
  not among the sources. The spec calls it an opaque capability that compiles template
  text, built from a template location and the entries of an override map. A handle is
  the number of its construction and the two values it was constructed with, each of
  which may be \<open>undefined\<close>.
\<close>

record handle =
  handle_id :: nat
  handle_location :: "json option"
  handle_templatesMap :: "json option"

text \<open>
  Modelled from the spec: the state of the module \<open>handlebars-converter\<close>. The spec says that
  exactly one current handle exists process-wide at any time; the state is that handle and
  the number of handles constructed so far.
\<close>

record converter =
  shared :: handle
  built :: nat

text \<open>
  Modelled from the spec: the module \<open>../handlebars-converter/handlebars-converter\<close> is not
  among the sources. The spec says that exactly one current handle exists at any time,
  that an acquisition either constructs a brand-new handle, configured with the override
  map's entries, or returns the existing shared handle unchanged, and that every freshly
  constructed handle becomes the new shared handle. The arguments are those of the call in
  \<open>GetHandlebarsInstance\<close>: \<open>(createNew, templateFilesLocation, templatesMap)\<close>.
\<close>

definition HandlebarsConverter_instance ::
  "bool \<times> json option \<times> json option \<Rightarrow> converter \<Rightarrow> handle \<times> converter" where
  "HandlebarsConverter_instance args c =
     (case args of (createNew, templateFilesLocation, templatesMap) \<Rightarrow>
        if createNew then
          (let h = \<lparr>handle_id = built c, handle_location = templateFilesLocation,
                    handle_templatesMap = templatesMap\<rparr>
           in (h, \<lparr>shared = h, built = Suc (built c)\<rparr>))
        else (shared c, c))"

subsection \<open>The worker's state\<close>

text \<open>A compiled template: the handle that compiled it and the text it was compiled from.\<close>

datatype template = Template (compiled_by: nat) (compiled_from: string)

text \<open>
  Modelled from the spec: the module \<open>../constants/constants\<close> is not among the sources. The
  spec says that the configuration object exposes at least a template-root location. This
  is the object that the variable \<open>constants\<close> holds until a constants-updated task
  replaces it.
\<close>

definition module_constants :: "string \<Rightarrow> json" where
  "module_constants dir = JObj [(''TEMPLATE_FILES_LOCATION'', JStr dir)]"

text \<open>
  \<open>constants.TEMPLATE_FILES_LOCATION\<close>, of whatever the variable holds: reading a property
  of \<open>null\<close> throws, an object gives the value of its entry or \<open>undefined\<close>, and any other
  value gives \<open>undefined\<close>.
\<close>

fun TEMPLATE_FILES_LOCATION :: "json \<Rightarrow> exn + json option" where
  "TEMPLATE_FILES_LOCATION JNull =
     Inl (Exn ''TypeError'' ''Cannot read property 'TEMPLATE_FILES_LOCATION' of null'')"
| "TEMPLATE_FILES_LOCATION (JObj kvs) = Inr (map_of kvs ''TEMPLATE_FILES_LOCATION'')"
| "TEMPLATE_FILES_LOCATION v = Inr None"

text \<open>The calls to collaborators that are logged: a file read, a text compiled.\<close>

datatype io_event = ReadFile string | Compile string

text \<open>
  The state that a task reads and writes: the variable \<open>rebuildCache\<close> (line 21), the cache
  \<open>compileCache\<close> of the \<open>memory-cache\<close> package, as the list of its entries, the variable
  \<open>constants\<close> (line 12), which after line 200 holds whatever the payload parsed to, the
  state of the module \<open>handlebars-converter\<close>, and the log of the files read and the texts
  compiled.
\<close>

record worker =
  rebuildCache :: bool
  compileCache :: "(string \<times> template) list"
  constants :: json
  converter :: converter
  io_log :: "io_event list"

text \<open>The worker when the module is loaded: the flag is set and the cache is empty.\<close>

definition loaded :: "string \<Rightarrow> converter \<Rightarrow> worker" where
  "loaded dir conv =
     \<lparr>rebuildCache = True, compileCache = [], constants = module_constants dir,
      converter = conv, io_log = []\<rparr>"

subsection \<open>Collaborators\<close>

text \<open>
  Each collaborator returns its value or the error it throws. \<open>Buffer_from_base64 x\<close> is
  \<open>Buffer.from(x, 'base64').toString()\<close>, of a field that may be \<open>undefined\<close>. \<open>path_join\<close>
  takes the location read from the configuration and the template name, either of which
  may be \<open>undefined\<close> or, for the location, no string: then \<open>path.join\<close> throws. \<open>readFile\<close>
  gives the error that \<open>fs.readFile\<close> throws at once, for a path it refuses, or else the
  error or the content that it hands to its callback.
\<close>

record env =
  Buffer_from_base64 :: "string option \<Rightarrow> exn + string"
  JSON_parse :: "string \<Rightarrow> exn + json"
  JSON_stringify :: "json \<Rightarrow> string"
  path_join :: "json option \<Rightarrow> string option \<Rightarrow> exn + string"
  readFile :: "string \<Rightarrow> exn + (exn + string)"
  templatePreprocessor_Process :: "string \<Rightarrow> exn + string"
  compile :: "handle \<Rightarrow> string \<Rightarrow> exn + template"
  render :: "template \<Rightarrow> json \<Rightarrow> exn + string"
  jsonProcessor_Process :: "string \<Rightarrow> exn + string"
  resourceMerger_Process :: "json \<Rightarrow> json \<Rightarrow> exn + json"

subsection \<open>GetHandlebarsInstance and expireCache\<close>

text \<open>Truthiness of a parsed value.\<close>

fun truthy :: "json \<Rightarrow> bool" where
  "truthy JNull = False"
| "truthy (JBool b) = b"
| "truthy (JNum n) = (n \<noteq> Finite 0)"
| "truthy (JStr s) = (s \<noteq> [])"
| "truthy (JArr xs) = True"
| "truthy (JObj kvs) = True"

text \<open>\<open>Object.entries(v).length\<close>, for a value that is not \<open>null\<close>.\<close>

fun Object_entries_length :: "json \<Rightarrow> nat" where
  "Object_entries_length (JObj kvs) = length kvs"
| "Object_entries_length (JArr xs) = length xs"
| "Object_entries_length (JStr s) = length s"
| "Object_entries_length v = 0"

text \<open>
  \<open>v.constructor === Object\<close>: an array, a string, a number and a boolean have their own
  constructors; an object has \<open>Object\<close> unless an own property named \<open>constructor\<close> hides it.
\<close>

fun constructor_is_Object :: "json \<Rightarrow> bool" where
  "constructor_is_Object (JObj kvs) = (map_of kvs ''constructor'' = None)"
| "constructor_is_Object v = False"

definition needToUseMap :: "json option \<Rightarrow> bool" where
  "needToUseMap templatesMap =
     (case templatesMap of
        None \<Rightarrow> False
      | Some v \<Rightarrow> truthy v \<and> 0 < Object_entries_length v \<and> constructor_is_Object v)"

text \<open>
  The arguments of the call \<open>HandlebarsConverter.instance(...)\<close> on line 26, or the error
  that evaluating them throws.
\<close>

definition instance_args ::
  "worker \<Rightarrow> json option \<Rightarrow> exn + bool \<times> json option \<times> json option" where
  "instance_args w templatesMap =
     (case TEMPLATE_FILES_LOCATION (constants w) of
        Inl err \<Rightarrow> Inl err
      | Inr location \<Rightarrow>
          Inr ((if needToUseMap templatesMap then True else rebuildCache w),
               location,
               templatesMap))"

text \<open>The instance and the worker after the call, or the error thrown on line 26.\<close>

definition GetHandlebarsInstance :: "worker \<Rightarrow> json option \<Rightarrow> exn + handle \<times> worker" where
  "GetHandlebarsInstance w templatesMap =
     (case instance_args w templatesMap of
        Inl err \<Rightarrow> Inl err
      | Inr args \<Rightarrow>
          (case HandlebarsConverter_instance args (converter w) of
             (instance, c) \<Rightarrow>
               Inr (instance,
                    w\<lparr>converter := c,
                      rebuildCache := (if needToUseMap templatesMap then True else False)\<rparr>)))"

definition expireCache :: "worker \<Rightarrow> worker" where
  "expireCache w = w\<lparr>rebuildCache := True, compileCache := []\<rparr>"

subsection \<open>generateResult\<close>

definition generateResult :: "env \<Rightarrow> json \<Rightarrow> template \<Rightarrow> json \<Rightarrow> exn + json" where
  "generateResult env msgContext template replacementDictionary =
     (case render env template msgContext of
        Inl err \<Rightarrow> Inl err
      | Inr text \<Rightarrow>
     (case jsonProcessor_Process env text of
        Inl err \<Rightarrow> Inl err
      | Inr processed \<Rightarrow>
     (case JSON_parse env processed of
        Inl err \<Rightarrow> Inl err
      | Inr parsed \<Rightarrow>
     (case resourceMerger_Process env parsed replacementDictionary of
        Inl err \<Rightarrow> Inl err
      | Inr merged \<Rightarrow> Inr (JObj [(''fhirResource'', merged)])))))"

text \<open>
  \<open>try { fulfill({status: 200, resultMsg: generateResult(...)}) } catch (err) { reject(...) }\<close>,
  as both conversion routes end; the routes differ in the prefix of the error text.
\<close>

definition settle_result :: "string \<Rightarrow> promise \<Rightarrow> exn + json \<Rightarrow> promise" where
  "settle_result prefix p result =
     (case result of
        Inr r \<Rightarrow> fulfill p (ok r)
      | Inl err \<Rightarrow> reject p (bad_request (prefix @ err_toString err)))"

subsection \<open>Task messages\<close>

text \<open>
  A task message: its \<open>type\<close> and the fields the handler reads, each of which may be
  missing.
\<close>

record task_msg =
  msg_type :: string
  messageBase64 :: "string option"
  templateBase64 :: "string option"
  replacementDictionaryBase64 :: "string option"
  templatesMapBase64 :: "string option"
  messageContent :: "string option"
  templateName :: "string option"
  data :: "string option"

text \<open>A field in a condition: \<open>undefined\<close> and the empty string are falsy.\<close>

definition present :: "string option \<Rightarrow> bool" where
  "present x = (case x of None \<Rightarrow> False | Some s \<Rightarrow> s \<noteq> [])"

text \<open>A field where a string is expected: \<open>undefined\<close> is converted to its name.\<close>

definition js_string :: "string option \<Rightarrow> string" where
  "js_string x = (case x of None \<Rightarrow> ''undefined'' | Some s \<Rightarrow> s)"

subsection \<open>The inline conversion: /api/convert/hl7\<close>

text \<open>The character class \<open>[a-zA-Z0-9/\r\n+]\<close>.\<close>

definition base64_class :: "char \<Rightarrow> bool" where
  "base64_class c =
     (c \<in> set ''abcdefghijklmnopqrstuvwxyzABCDEFGHIJKLMNOPQRSTUVWXYZ0123456789/+''
      \<or> c = CHR 0x0D \<or> c = CHR 0x0A)"

text \<open>
  \<open>/^[a-zA-Z0-9/\r\n+]*={0,2}$/.test(x)\<close>: the equals sign is outside the class, so the
  string matches when what follows its longest prefix in the class is at most two equals
  signs.
\<close>

definition base64RegEx_test :: "string option \<Rightarrow> bool" where
  "base64RegEx_test x =
     (let rest = dropWhile base64_class (js_string x)
      in rest = [] \<or> rest = ''='' \<or> rest = ''=='')"

text \<open>Lines 65 to 71: the replacement dictionary, \<open>{}\<close> when the field is missing.\<close>

definition decode_replacementDictionary ::
  "env \<Rightarrow> task_msg \<Rightarrow> promise \<Rightarrow> promise \<times> (exn + json)" where
  "decode_replacementDictionary env msg p =
     (if present (replacementDictionaryBase64 msg) then
        (let p' = (if \<not> base64RegEx_test (replacementDictionaryBase64 msg)
                   then reject p (bad_request ''replacementDictionary is not a base 64 encoded string.'')
                   else p)
         in (p', case Buffer_from_base64 env (replacementDictionaryBase64 msg) of
                   Inl err \<Rightarrow> Inl err
                 | Inr text \<Rightarrow> JSON_parse env text))
      else (p, Inr (JObj [])))"

text \<open>Lines 73 to 79: the override map, \<open>undefined\<close> when the field is missing.\<close>

definition decode_templatesMap ::
  "env \<Rightarrow> task_msg \<Rightarrow> promise \<Rightarrow> promise \<times> (exn + json option)" where
  "decode_templatesMap env msg p =
     (if present (templatesMapBase64 msg) then
        (let p' = (if \<not> base64RegEx_test (templatesMapBase64 msg)
                   then reject p (bad_request ''templatesMap is not a base 64 encoded string.'')
                   else p)
         in (p', case Buffer_from_base64 env (templatesMapBase64 msg) of
                   Inl err \<Rightarrow> Inl err
                 | Inr text \<Rightarrow>
                     (case JSON_parse env text of Inl err \<Rightarrow> Inl err | Inr v \<Rightarrow> Inr (Some v))))
      else (p, Inr None))"

text \<open>Lines 81 to 88: the message, \<open>{}\<close> when it cannot be decoded and parsed.\<close>

definition decode_message :: "env \<Rightarrow> task_msg \<Rightarrow> promise \<Rightarrow> promise \<times> json" where
  "decode_message env msg p =
     (case (case Buffer_from_base64 env (messageBase64 msg) of
              Inl err \<Rightarrow> Inl err
            | Inr text \<Rightarrow> JSON_parse env text) of
        Inr msgObj \<Rightarrow> (p, msgObj)
      | Inl err \<Rightarrow>
          (reject p (bad_request (''Unable to decode and parse HL7 v2 message. '' @ exn_message err)),
           JObj []))"

text \<open>Lines 90 to 93: the template text, empty when the field is missing.\<close>

definition decode_template :: "env \<Rightarrow> task_msg \<Rightarrow> exn + string" where
  "decode_template env msg =
     (if present (templateBase64 msg) then Buffer_from_base64 env (templateBase64 msg)
      else Inr [])"

text \<open>
  \<open>GetHandlebarsInstance(templatesMap).compile(templatePreprocessor.Process(text))\<close>: the
  instance is acquired first, then the text is pre-processed, then compiled.
\<close>

definition compile_template ::
  "env \<Rightarrow> worker \<Rightarrow> json option \<Rightarrow> string \<Rightarrow> worker \<times> (exn + template)" where
  "compile_template env w templatesMap text =
     (case GetHandlebarsInstance w templatesMap of
        Inl err \<Rightarrow> (w, Inl err)
      | Inr (instance, w') \<Rightarrow>
          (case templatePreprocessor_Process env text of
             Inl err \<Rightarrow> (w', Inl err)
           | Inr processed \<Rightarrow>
               (w'\<lparr>io_log := io_log w' @ [Compile processed]\<rparr>, compile env instance processed)))"

text \<open>Lines 57 to 63: the alphabet of the message and of the template.\<close>

definition check_encoding :: "task_msg \<Rightarrow> promise \<Rightarrow> promise" where
  "check_encoding msg p0 =
     (let p1 = (if \<not> base64RegEx_test (messageBase64 msg)
                then reject p0 (bad_request ''Message is not a base 64 encoded string.'')
                else p0)
      in if \<not> base64RegEx_test (templateBase64 msg)
         then reject p1 (bad_request ''Template is not a base 64 encoded string.'')
         else p1)"

text \<open>
  Lines 81 to 112, with the replacement dictionary and the override map decoded: the
  worker, the promise, and the error that leaves the outer \<open>try\<close>, if any.
\<close>

definition convert_decoded ::
  "env \<Rightarrow> task_msg \<Rightarrow> worker \<Rightarrow> json \<Rightarrow> json option \<Rightarrow> promise
     \<Rightarrow> worker \<times> promise \<times> exn option" where
  "convert_decoded env msg w replacementDictionary templatesMap p4 =
     (case decode_message env msg p4 of
        (p5, msgObj) \<Rightarrow>
     (case decode_template env msg of
        Inl err \<Rightarrow> (w, p5, Some err)
      | Inr templateString \<Rightarrow>
          if templateString = [] then
            (case JSON_parse env (JSON_stringify env msgObj) of
               Inl err \<Rightarrow> (w, p5, Some err)
             | Inr copy \<Rightarrow> (w, fulfill p5 (ok (JObj [(''fhirResource'', copy)])), None))
          else
            (case compile_template env w templatesMap templateString of
               (w', Inl err) \<Rightarrow> (w', p5, Some err)
             | (w', Inr template) \<Rightarrow>
                 (w',
                  settle_result ''Unable to create result: '' p5
                    (generateResult env (JObj [(''msg'', msgObj)]) template replacementDictionary),
                  None))))"

text \<open>
  The body of the outer \<open>try\<close>, lines 55 to 112. A \<open>reject\<close> is not a \<open>return\<close>: the
  statements after it still run.
\<close>

definition convert_hl7_try ::
  "env \<Rightarrow> task_msg \<Rightarrow> worker \<Rightarrow> promise \<Rightarrow> worker \<times> promise \<times> exn option" where
  "convert_hl7_try env msg w p0 =
     (case decode_replacementDictionary env msg (check_encoding msg p0) of
        (p3, Inl err) \<Rightarrow> (w, p3, Some err)
      | (p3, Inr replacementDictionary) \<Rightarrow>
     (case decode_templatesMap env msg p3 of
        (p4, Inl err) \<Rightarrow> (w, p4, Some err)
      | (p4, Inr templatesMap) \<Rightarrow>
          convert_decoded env msg w replacementDictionary templatesMap p4))"

text \<open>The outer \<open>catch\<close>, lines 114 to 116.\<close>

definition convert_hl7 :: "env \<Rightarrow> task_msg \<Rightarrow> worker \<Rightarrow> promise \<Rightarrow> worker \<times> promise" where
  "convert_hl7 env msg w p =
     (case convert_hl7_try env msg w p of
        (w', p', None) \<Rightarrow> (w', p')
      | (w', p', Some err) \<Rightarrow> (w', reject p' (bad_request (err_toString err))))"

subsection \<open>The named conversion: /api/convert/hl7/:template\<close>

text \<open>What the promise of \<open>getTemplate\<close> settles with.\<close>

datatype lookup = Found template | Failed settle_arg

text \<open>
  \<open>path.join(constants.TEMPLATE_FILES_LOCATION, templateName)\<close> on line 144: the path, or the
  error thrown by reading the property or by \<open>path.join\<close>.
\<close>

definition template_file :: "env \<Rightarrow> worker \<Rightarrow> string option \<Rightarrow> exn + string" where
  "template_file env w name =
     (case TEMPLATE_FILES_LOCATION (constants w) of
        Inl err \<Rightarrow> Inl err
      | Inr location \<Rightarrow> path_join env location name)"

text \<open>The call of \<open>fs.readFile\<close>, logged.\<close>

definition read_template ::
  "env \<Rightarrow> worker \<Rightarrow> string \<Rightarrow> worker \<times> (exn + (exn + string))" where
  "read_template env w file = (w\<lparr>io_log := io_log w @ [ReadFile file]\<rparr>, readFile env file)"

text \<open>
  \<open>getTemplate\<close>, with the callback of \<open>fs.readFile\<close> run at once: no other task runs
  between the miss and the callback. The cache is the \<open>memory-cache\<close> package: \<open>get\<close> gives
  the value stored under a key, if any, and \<open>put\<close> stores a value under a key, replacing
  an earlier one; a key is used as a string. An error thrown in the function given to
  \<open>new Promise\<close>, before the callback, rejects the promise with the error object itself.
\<close>

definition getTemplate :: "env \<Rightarrow> worker \<Rightarrow> string option \<Rightarrow> worker \<times> lookup" where
  "getTemplate env w name =
     (case map_of (compileCache w) (js_string name) of
        Some template \<Rightarrow> (w, Found template)
      | None \<Rightarrow>
          (case template_file env w name of
             Inl err \<Rightarrow> (w, Failed (Raised err))
           | Inr file \<Rightarrow>
          (case read_template env w file of
             (w1, Inl err) \<Rightarrow> (w1, Failed (Raised err))
           | (w1, Inr (Inl err)) \<Rightarrow> (w1, Failed (not_found ''Template not found''))
           | (w1, Inr (Inr templateContent)) \<Rightarrow>
               (case compile_template env w1 None templateContent of
                  (w2, Inl convertErr) \<Rightarrow>
                    (w2, Failed (bad_request
                       (''Error during template compilation. '' @ err_toString convertErr)))
                | (w2, Inr template) \<Rightarrow>
                    (w2\<lparr>compileCache :=
                          AList.update (js_string name) template (compileCache w2)\<rparr>,
                     Found template)))))"

definition convert_hl7_template ::
  "env \<Rightarrow> task_msg \<Rightarrow> worker \<Rightarrow> promise \<Rightarrow> worker \<times> promise" where
  "convert_hl7_template env msg w p0 =
     (let p1 = (if \<not> present (messageContent msg)
                then reject p0 (bad_request ''No message provided.'')
                else p0)
      in case (case JSON_parse env (js_string (messageContent msg)) of
                 Inr v \<Rightarrow> (p1, v)
               | Inl err \<Rightarrow>
                   (reject p1 (bad_request
                      (''Unable to decode and parse HL7 v2 message. '' @ err_toString err)),
                    JObj [])) of
           (p2, msgObject) \<Rightarrow>
      (case getTemplate env w (templateName msg) of
           (w', Found compiledTemplate) \<Rightarrow>
             (w',
              settle_result ''Error during template evaluation. '' p2
                (generateResult env (JObj [(''msg'', msgObject)]) compiledTemplate JNull))
         | (w', Failed err) \<Rightarrow> (w', reject p2 err)))"

subsection \<open>The task processor\<close>

text \<open>
  The \<open>switch\<close> on the type of the message, which has no default case. The third component
  is the error that leaves the function, if any.
\<close>

definition handler ::
  "env \<Rightarrow> task_msg \<Rightarrow> worker \<Rightarrow> promise \<Rightarrow> worker \<times> promise \<times> exn option" where
  "handler env msg w p =
     (if msg_type msg = ''/api/convert/hl7'' then
        (case convert_hl7 env msg w p of (w', p') \<Rightarrow> (w', p', None))
      else if msg_type msg = ''/api/convert/hl7/:template'' then
        (case convert_hl7_template env msg w p of (w', p') \<Rightarrow> (w', p', None))
      else if msg_type msg = ''templatesUpdated'' then
        (expireCache w, fulfill p NoValue, None)
      else if msg_type msg = ''constantsUpdated'' then
        (case JSON_parse env (js_string (data msg)) of
           Inl err \<Rightarrow> (w, p, Some err)
         | Inr parsed \<Rightarrow>
             (expireCache (w\<lparr>constants := parsed\<rparr>), fulfill p NoValue, None))
      else (w, p, None))"

text \<open>
  \<open>new Promise(handler)\<close>: the handler runs on a pending promise, and an error that leaves
  it rejects the promise with the error object itself.
\<close>

definition workerTask :: "env \<Rightarrow> worker \<Rightarrow> task_msg \<Rightarrow> worker \<times> promise" where
  "workerTask env w msg =
     (case handler env msg w Pending of
        (w', p, None) \<Rightarrow> (w', p)
      | (w', p, Some err) \<Rightarrow> (w', reject p (Raised err)))"

subsection \<open>A concrete worker and concrete collaborators\<close>

text \<open>
  A worker that holds its first handle, with the flag down and nothing cached, and a
  small set of collaborators: a decoder that knows the encodings of five texts, a parser
  that knows six documents and the errors of two other texts, a serialiser, a
  \<open>path.join\<close> that joins two strings and throws otherwise, a file system with three
  templates, of which one does not compile, that refuses a path with a null byte, a
  renderer that knows one template, whose output ends in a comma, and a post-processor
  that removes the comma.
\<close>

definition demo_handle :: handle where
  "demo_handle =
     \<lparr>handle_id = 0, handle_location = Some (JStr ''templates''), handle_templatesMap = None\<rparr>"

definition demo_worker :: worker where
  "demo_worker =
     \<lparr>rebuildCache = False, compileCache = [],
      constants = module_constants ''templates'',
      converter = \<lparr>shared = demo_handle, built = 1\<rparr>, io_log = []\<rparr>"

definition demo_decode :: "string option \<Rightarrow> exn + string" where
  \<open>demo_decode x =
     (case x of
        None \<Rightarrow> Inl (Exn ''TypeError'' ''The first argument must be of type string'')
      | Some s \<Rightarrow>
          Inr (if s = ''eyJhIjoxfQ=='' then ''{"a":1}''
               else if s = ''eyJhIjoxZTQwMH0='' then ''{"a":1e400}''
               else if s = ''bm90IGpzb24='' then ''not json''
               else if s = ''e3t4fX0='' then ''{{x}}''
               else if s = ''e3t5fX0='' then ''{{y}}''
               else []))\<close>

definition demo_parse :: "string \<Rightarrow> exn + json" where
  \<open>demo_parse s =
     (if s = ''{"a":1}'' then Inr (JObj [(''a'', JNum (Finite 1))])
      else if s = ''{"a":1e400}'' then Inr (JObj [(''a'', JNum PlusInfinity)])
      else if s = ''{"a":null}'' then Inr (JObj [(''a'', JNull)])
      else if s = ''{}'' then Inr (JObj [])
      else if s = ''null'' then Inr JNull
      else if s = ''{"TEMPLATE_FILES_LOCATION":"other"}''
        then Inr (JObj [(''TEMPLATE_FILES_LOCATION'', JStr ''other'')])
      else if s = ''not json''
        then Inl (Exn ''SyntaxError'' ''Unexpected token o in JSON at position 1'')
      else if s = ''{"a":1,}''
        then Inl (Exn ''SyntaxError'' ''Unexpected token } in JSON at position 7'')
      else Inl (Exn ''SyntaxError'' ''Unexpected end of JSON input''))\<close>

definition demo_stringify :: "json \<Rightarrow> string" where
  \<open>demo_stringify v =
     (if v = JObj [(''a'', JNum (Finite 1))] then ''{"a":1}''
      else if v = JObj [(''a'', JNum PlusInfinity)] then ''{"a":null}''
      else ''{}'')\<close>

definition demo_path_join :: "json option \<Rightarrow> string option \<Rightarrow> exn + string" where
  \<open>demo_path_join location name =
     (case (location, name) of
        (Some (JStr dir), Some n) \<Rightarrow> Inr (dir @ ''/'' @ n)
      | _ \<Rightarrow>
          Inl (Exn ''TypeError''
                 ''The "path" argument must be of type string. Received undefined''))\<close>

definition demo_readFile :: "string \<Rightarrow> exn + (exn + string)" where
  "demo_readFile file =
     (if CHR 0x00 \<in> set file
        then Inl (Exn ''TypeError''
                    ''The argument 'path' must be a string or Uint8Array without null bytes'')
      else if file = ''templates/ADT_A01.hbs'' then Inr (Inr ''{{x}}'')
      else if file = ''other/ADT_A01.hbs'' then Inr (Inr ''{{x}}'')
      else if file = ''templates/broken.hbs'' then Inr (Inr ''{{#if'')
      else Inr (Inl (Exn ''Error'' ''ENOENT: no such file or directory'')))"

definition demo_compile :: "handle \<Rightarrow> string \<Rightarrow> exn + template" where
  "demo_compile h text =
     (if text = ''{{#if'' then Inl (Exn ''Error'' ''Parse error'')
      else Inr (Template (handle_id h) text))"

definition demo_render :: "template \<Rightarrow> json \<Rightarrow> exn + string" where
  \<open>demo_render template msgContext =
     (if compiled_from template = ''{{x}}'' then Inr ''{"a":1,}''
      else Inl (Exn ''Error'' ''Missing helper''))\<close>

definition demo_env :: env where
  \<open>demo_env =
     \<lparr>Buffer_from_base64 = demo_decode,
      JSON_parse = demo_parse,
      JSON_stringify = demo_stringify,
      path_join = demo_path_join,
      readFile = demo_readFile,
      templatePreprocessor_Process = Inr,
      compile = demo_compile,
      render = demo_render,
      jsonProcessor_Process = (\<lambda>text. Inr (if text = ''{"a":1,}'' then ''{"a":1}'' else text)),
      resourceMerger_Process = (\<lambda>parsed replacementDictionary. Inr parsed)\<rparr>\<close>

text \<open>A message with no field set, and a worker with one compiled template in its cache.\<close>

definition no_fields :: task_msg where
  "no_fields =
     \<lparr>msg_type = [], messageBase64 = None, templateBase64 = None,
      replacementDictionaryBase64 = None, templatesMapBase64 = None,
      messageContent = None, templateName = None, data = None\<rparr>"

definition cached_worker :: worker where
  "cached_worker = demo_worker\<lparr>compileCache := [(''ADT_A01.hbs'', Template 0 ''{{x}}'')]\<rparr>"

section \<open>Properties\<close>

subsection \<open>Acquiring the engine instance\<close>

lemma needToUseMap_plain:
  "kvs \<noteq> [] \<Longrightarrow> map_of kvs ''constructor'' = None \<Longrightarrow> needToUseMap (Some (JObj kvs))"
  by (simp add: needToUseMap_def)

lemma location_read:
  "c \<noteq> JNull \<Longrightarrow> \<exists>loc. TEMPLATE_FILES_LOCATION c = Inr loc"
  by (cases c) simp_all

lemma GetHandlebarsInstance_override:
  "TEMPLATE_FILES_LOCATION (constants w) = Inr loc \<Longrightarrow> needToUseMap tm \<Longrightarrow>
   GetHandlebarsInstance w tm =
     Inr (\<lparr>handle_id = built (converter w), handle_location = loc, handle_templatesMap = tm\<rparr>,
          w\<lparr>converter := \<lparr>shared = \<lparr>handle_id = built (converter w), handle_location = loc,
                                      handle_templatesMap = tm\<rparr>,
                            built = Suc (built (converter w))\<rparr>,
            rebuildCache := True\<rparr>)"
  by (simp add: GetHandlebarsInstance_def instance_args_def HandlebarsConverter_instance_def Let_def)

lemma GetHandlebarsInstance_rebuild:
  "TEMPLATE_FILES_LOCATION (constants w) = Inr loc \<Longrightarrow> \<not> needToUseMap tm \<Longrightarrow> rebuildCache w \<Longrightarrow>
   GetHandlebarsInstance w tm =
     Inr (\<lparr>handle_id = built (converter w), handle_location = loc, handle_templatesMap = tm\<rparr>,
          w\<lparr>converter := \<lparr>shared = \<lparr>handle_id = built (converter w), handle_location = loc,
                                      handle_templatesMap = tm\<rparr>,
                            built = Suc (built (converter w))\<rparr>,
            rebuildCache := False\<rparr>)"
  by (simp add: GetHandlebarsInstance_def instance_args_def HandlebarsConverter_instance_def Let_def)

lemma GetHandlebarsInstance_reuse:
  "TEMPLATE_FILES_LOCATION (constants w) = Inr loc \<Longrightarrow> \<not> needToUseMap tm \<Longrightarrow> \<not> rebuildCache w \<Longrightarrow>
   GetHandlebarsInstance w tm = Inr (shared (converter w), w)"
  by (simp add: GetHandlebarsInstance_def instance_args_def HandlebarsConverter_instance_def)

lemma GetHandlebarsInstance_twice:
  "TEMPLATE_FILES_LOCATION (constants w) = Inr loc \<Longrightarrow> \<not> needToUseMap tm \<Longrightarrow> \<not> needToUseMap tm' \<Longrightarrow>
   \<exists>h w'. GetHandlebarsInstance w tm = Inr (h, w') \<and> GetHandlebarsInstance w' tm' = Inr (h, w')"
  by (cases "rebuildCache w")
     (simp_all add: GetHandlebarsInstance_rebuild GetHandlebarsInstance_reuse)

text \<open>
  With \<open>null\<close> for the configuration, which the variable holds after a constants-updated
  task with the payload \<open>null\<close>, line 26 throws and the worker is left as it was.
\<close>

lemma GetHandlebarsInstance_null:
  "constants w = JNull \<Longrightarrow>
   GetHandlebarsInstance w tm =
     Inl (Exn ''TypeError'' ''Cannot read property 'TEMPLATE_FILES_LOCATION' of null'')"
  by (simp add: GetHandlebarsInstance_def instance_args_def)

lemma demo_worker_simps:
  "rebuildCache demo_worker = False"
  "compileCache demo_worker = []"
  "constants demo_worker = JObj [(''TEMPLATE_FILES_LOCATION'', JStr ''templates'')]"
  "converter demo_worker = \<lparr>shared = demo_handle, built = 1\<rparr>"
  "io_log demo_worker = []"
  by (simp_all add: demo_worker_def module_constants_def)

lemma cached_worker_simps:
  "rebuildCache cached_worker = False"
  "compileCache cached_worker = [(''ADT_A01.hbs'', Template 0 ''{{x}}'')]"
  "constants cached_worker = JObj [(''TEMPLATE_FILES_LOCATION'', JStr ''templates'')]"
  "converter cached_worker = \<lparr>shared = demo_handle, built = 1\<rparr>"
  "io_log cached_worker = []"
  by (simp_all add: cached_worker_def demo_worker_def module_constants_def)

lemmas acquire_defs =
  GetHandlebarsInstance_def instance_args_def HandlebarsConverter_instance_def needToUseMap_def
  Let_def

text \<open>
  Claim C1, as stated, fails: an override map that is present and non-empty does not
  always lead to a new handle. An array of entries is non-empty, yet with the flag down
  the acquisition returns the shared handle and leaves the worker as it was.
\<close>

theorem GetHandlebarsInstance_array_counterexample:
  "GetHandlebarsInstance demo_worker (Some (JArr [JArr [JStr ''t.hbs'', JStr ''{{msg}}'']]))
     = Inr (demo_handle, demo_worker)"
  by (simp add: acquire_defs demo_worker_simps)

text \<open>
  The same happens for an object that has an own entry named \<open>constructor\<close>, which hides
  the constructor the test on line 25 looks at.
\<close>

lemma GetHandlebarsInstance_own_constructor:
  "GetHandlebarsInstance demo_worker (Some (JObj [(''constructor'', JStr ''{{msg}}'')]))
     = Inr (demo_handle, demo_worker)"
  by (simp add: acquire_defs demo_worker_simps)

text \<open>
  Claim C1, amended: the three cases of the acquisition, for an override map that is a
  non-empty plain object whose constructor is \<open>Object\<close> (no own entry named
  \<open>constructor\<close>), in a worker whose configuration is not \<open>null\<close>. Such a map leads to a
  brand-new handle, numbered after every handle built before and configured with the map,
  which becomes the shared handle, and the flag is set. With the map absent or an empty
  object: if the flag is set a new handle is built and the flag is reset; otherwise the
  shared handle is returned and nothing changes; and a second such acquisition right
  after the first returns the same handle and changes nothing.
\<close>

theorem GetHandlebarsInstance_three_cases:
  "constants w \<noteq> JNull \<longrightarrow>
   (kvs \<noteq> [] \<and> map_of kvs ''constructor'' = None \<longrightarrow>
      (\<exists>h w'. GetHandlebarsInstance w (Some (JObj kvs)) = Inr (h, w')
         \<and> handle_id h = built (converter w) \<and> handle_templatesMap h = Some (JObj kvs)
         \<and> shared (converter w') = h \<and> built (converter w') = Suc (built (converter w))
         \<and> rebuildCache w'))
   \<and> (tm = None \<or> tm = Some (JObj []) \<longrightarrow>
        (rebuildCache w \<longrightarrow>
           (\<exists>h w'. GetHandlebarsInstance w tm = Inr (h, w')
              \<and> handle_id h = built (converter w) \<and> shared (converter w') = h
              \<and> built (converter w') = Suc (built (converter w)) \<and> \<not> rebuildCache w'))
        \<and> (\<not> rebuildCache w \<longrightarrow> GetHandlebarsInstance w tm = Inr (shared (converter w), w))
        \<and> (tm' = None \<or> tm' = Some (JObj []) \<longrightarrow>
             (\<exists>h w'. GetHandlebarsInstance w tm = Inr (h, w')
                \<and> GetHandlebarsInstance w' tm' = Inr (h, w'))))"
proof (intro conjI impI)
  assume "constants w \<noteq> JNull"
  then obtain loc where loc: "TEMPLATE_FILES_LOCATION (constants w) = Inr loc"
    using location_read by blast
  {
    assume "kvs \<noteq> [] \<and> map_of kvs ''constructor'' = None"
    then have "needToUseMap (Some (JObj kvs))"
      by (simp add: needToUseMap_plain)
    then show "\<exists>h w'. GetHandlebarsInstance w (Some (JObj kvs)) = Inr (h, w')
         \<and> handle_id h = built (converter w) \<and> handle_templatesMap h = Some (JObj kvs)
         \<and> shared (converter w') = h \<and> built (converter w') = Suc (built (converter w))
         \<and> rebuildCache w'"
      by (simp add: GetHandlebarsInstance_override [OF loc])
  }
  {
    assume "tm = None \<or> tm = Some (JObj [])" and "rebuildCache w"
    then have "\<not> needToUseMap tm"
      by (auto simp: needToUseMap_def)
    with \<open>rebuildCache w\<close> show "\<exists>h w'. GetHandlebarsInstance w tm = Inr (h, w')
              \<and> handle_id h = built (converter w) \<and> shared (converter w') = h
              \<and> built (converter w') = Suc (built (converter w)) \<and> \<not> rebuildCache w'"
      by (simp add: GetHandlebarsInstance_rebuild [OF loc])
  }
  {
    assume "tm = None \<or> tm = Some (JObj [])" and "\<not> rebuildCache w"
    then have "\<not> needToUseMap tm"
      by (auto simp: needToUseMap_def)
    with \<open>\<not> rebuildCache w\<close> show "GetHandlebarsInstance w tm = Inr (shared (converter w), w)"
      by (simp add: GetHandlebarsInstance_reuse [OF loc])
  }
  {
    assume "tm = None \<or> tm = Some (JObj [])" and "tm' = None \<or> tm' = Some (JObj [])"
    then have "\<not> needToUseMap tm" and "\<not> needToUseMap tm'"
      by (auto simp: needToUseMap_def)
    then show "\<exists>h w'. GetHandlebarsInstance w tm = Inr (h, w')
                \<and> GetHandlebarsInstance w' tm' = Inr (h, w')"
      by (rule GetHandlebarsInstance_twice [OF loc])
  }
qed

theorem GetHandlebarsInstance_three_cases_witness:
  "(\<exists>h w'. GetHandlebarsInstance demo_worker (Some (JObj [(''t.hbs'', JStr ''{{msg}}'')]))
              = Inr (h, w')
        \<and> handle_id h = 1 \<and> handle_templatesMap h = Some (JObj [(''t.hbs'', JStr ''{{msg}}'')])
        \<and> shared (converter w') = h \<and> built (converter w') = 2 \<and> rebuildCache w')
   \<and> GetHandlebarsInstance demo_worker None = Inr (demo_handle, demo_worker)
   \<and> (\<exists>h w'. GetHandlebarsInstance demo_worker None = Inr (h, w')
        \<and> GetHandlebarsInstance w' None = Inr (h, w'))
   \<and> (\<exists>h w'. GetHandlebarsInstance (expireCache demo_worker) None = Inr (h, w')
        \<and> handle_id h = 1 \<and> shared (converter w') = h \<and> built (converter w') = 2
        \<and> \<not> rebuildCache w')"
  using GetHandlebarsInstance_three_cases
          [of demo_worker "[(''t.hbs'', JStr ''{{msg}}'')]" None None]
        GetHandlebarsInstance_three_cases
          [of "expireCache demo_worker" "[(''t.hbs'', JStr ''{{msg}}'')]" None None]
  by (simp add: demo_worker_simps expireCache_def numeral_2_eq_2)

text \<open>
  Claim C10: only a non-empty plain object counts as an override map. For any other
  value, an array of entries for one, with the flag down and a configuration whose
  location can be read, the acquisition returns the shared handle and changes nothing,
  the flag included, and the value is still the third argument of the call to
  \<open>HandlebarsConverter.instance\<close>.
\<close>

theorem GetHandlebarsInstance_not_plain_object:
  "(needToUseMap (Some v) \<longrightarrow> (\<exists>kvs. v = JObj kvs \<and> kvs \<noteq> []))
   \<and> ((\<forall>kvs. v \<noteq> JObj kvs) \<and> \<not> rebuildCache w
       \<and> TEMPLATE_FILES_LOCATION (constants w) = Inr loc \<longrightarrow>
        GetHandlebarsInstance w (Some v) = Inr (shared (converter w), w)
        \<and> instance_args w (Some v) = Inr (False, loc, Some v))"
proof (intro conjI impI)
  assume "needToUseMap (Some v)"
  then show "\<exists>kvs. v = JObj kvs \<and> kvs \<noteq> []"
    by (cases v) (simp_all add: needToUseMap_def)
next
  assume a: "(\<forall>kvs. v \<noteq> JObj kvs) \<and> \<not> rebuildCache w
       \<and> TEMPLATE_FILES_LOCATION (constants w) = Inr loc"
  then have n: "\<not> needToUseMap (Some v)"
    by (cases v) (simp_all add: needToUseMap_def)
  with a show "GetHandlebarsInstance w (Some v) = Inr (shared (converter w), w)"
    by (simp add: GetHandlebarsInstance_reuse)
  from a n show "instance_args w (Some v) = Inr (False, loc, Some v)"
    by (simp add: instance_args_def)
qed

theorem GetHandlebarsInstance_not_plain_object_witness:
  "needToUseMap (Some (JObj [(''t.hbs'', JStr ''{{msg}}'')]))
   \<and> (\<exists>kvs. JObj [(''t.hbs'', JStr ''{{msg}}'')] = JObj kvs \<and> kvs \<noteq> [])
   \<and> GetHandlebarsInstance demo_worker (Some (JArr [JStr ''t.hbs'', JStr ''{{msg}}'']))
       = Inr (demo_handle, demo_worker)
   \<and> instance_args demo_worker (Some (JArr [JStr ''t.hbs'', JStr ''{{msg}}'']))
       = Inr (False, Some (JStr ''templates''), Some (JArr [JStr ''t.hbs'', JStr ''{{msg}}'']))"
  using GetHandlebarsInstance_not_plain_object
          [of "JObj [(''t.hbs'', JStr ''{{msg}}'')]" demo_worker]
        GetHandlebarsInstance_not_plain_object
          [of "JArr [JStr ''t.hbs'', JStr ''{{msg}}'']" demo_worker "Some (JStr ''templates'')"]
  by (simp add: demo_worker_simps needToUseMap_def)

subsection \<open>Looking a template up by name\<close>




lemma getTemplate_hit:
  "map_of (compileCache w) (js_string name) = Some t \<Longrightarrow> getTemplate env w name = (w, Found t)"
  by (simp add: getTemplate_def)

lemma getTemplate_no_path:
  "map_of (compileCache w) (js_string name) = None \<Longrightarrow> template_file env w name = Inl err \<Longrightarrow>
   getTemplate env w name = (w, Failed (Raised err))"
  by (simp add: getTemplate_def)

lemma getTemplate_read_throws:
  "map_of (compileCache w) (js_string name) = None \<Longrightarrow> template_file env w name = Inr file \<Longrightarrow>
   readFile env file = Inl err \<Longrightarrow>
   getTemplate env w name = (w\<lparr>io_log := io_log w @ [ReadFile file]\<rparr>, Failed (Raised err))"
  by (simp add: getTemplate_def read_template_def)






lemma workerTask_named:
  "msg_type msg = ''/api/convert/hl7/:template'' \<Longrightarrow>
   workerTask env w msg = convert_hl7_template env msg w Pending"
  by (simp add: workerTask_def handler_def split: prod.splits)




text \<open>The concrete worker and collaborators, evaluated.\<close>

lemma demo_env_simps:
  "Buffer_from_base64 demo_env = demo_decode"
  "JSON_parse demo_env = demo_parse"
  "JSON_stringify demo_env = demo_stringify"
  "path_join demo_env = demo_path_join"
  "readFile demo_env = demo_readFile"
  "templatePreprocessor_Process demo_env = Inr"
  "compile demo_env = demo_compile"
  "render demo_env = demo_render"
  \<open>jsonProcessor_Process demo_env text = Inr (if text = ''{"a":1,}'' then ''{"a":1}'' else text)\<close>
  "resourceMerger_Process demo_env parsed rd = Inr parsed"
  by (simp_all add: demo_env_def)

lemma no_fields_simps:
  "msg_type no_fields = []"
  "messageBase64 no_fields = None"
  "templateBase64 no_fields = None"
  "replacementDictionaryBase64 no_fields = None"
  "templatesMapBase64 no_fields = None"
  "messageContent no_fields = None"
  "templateName no_fields = None"
  "data no_fields = None"
  by (simp_all add: no_fields_def)

lemmas demo_defs =
  demo_env_simps demo_decode_def demo_parse_def demo_stringify_def demo_path_join_def
  demo_readFile_def demo_compile_def demo_render_def demo_handle_def

lemmas lookup_defs =
  getTemplate_def read_template_def template_file_def compile_template_def acquire_defs
  js_string_def

lemma demo_getTemplate_hit:
  "getTemplate demo_env cached_worker (Some ''ADT_A01.hbs'')
     = (cached_worker, Found (Template 0 ''{{x}}''))"
  by (simp add: getTemplate_def js_string_def cached_worker_simps)


text \<open>
  A lookup with no template name, and a lookup of a name with a null byte: \<open>path.join\<close>
  and \<open>fs.readFile\<close> throw, and the lookup is rejected with the error object itself.
\<close>

lemma demo_getTemplate_no_name:
  \<open>getTemplate demo_env demo_worker None =
     (demo_worker,
      Failed (Raised (Exn ''TypeError''
        ''The "path" argument must be of type string. Received undefined'')))\<close>
  by (simp add: lookup_defs demo_worker_simps demo_defs)

lemma demo_getTemplate_null_byte:
  "getTemplate demo_env demo_worker (Some [CHR ''a'', CHR 0x00]) =
     (demo_worker\<lparr>io_log := [ReadFile (''templates/'' @ [CHR ''a'', CHR 0x00])]\<rparr>,
      Failed (Raised (Exn ''TypeError''
        ''The argument 'path' must be a string or Uint8Array without null bytes'')))"
  by (simp add: lookup_defs demo_worker_simps demo_defs)




subsection \<open>Invalidation\<close>


lemma GetHandlebarsInstance_flag_set:
  "TEMPLATE_FILES_LOCATION (constants w) = Inr loc \<Longrightarrow> rebuildCache w \<Longrightarrow>
   \<exists>h w'. GetHandlebarsInstance w tm = Inr (h, w')
     \<and> handle_id h = built (converter w) \<and> shared (converter w') = h"
  by (cases "needToUseMap tm")
     (simp_all add: GetHandlebarsInstance_override GetHandlebarsInstance_rebuild)

text \<open>
  The first acquisition after the module is loaded builds a handle: the handle that the
  state of the converter holds before it is never returned.
\<close>

lemma loaded_first_acquisition:
  "\<exists>h w'. GetHandlebarsInstance (loaded dir conv) tm = Inr (h, w')
     \<and> handle_id h = built conv \<and> shared (converter w') = h"
  using GetHandlebarsInstance_flag_set [of "loaded dir conv" "Some (JStr dir)" tm]
  by (simp add: loaded_def module_constants_def)

lemma workerTask_templatesUpdated:
  "msg_type msg = ''templatesUpdated'' \<Longrightarrow>
   workerTask env w msg = (expireCache w, Settled (Fulfilled NoValue))"
  by (simp add: workerTask_def handler_def fulfill_def)

lemma workerTask_constantsUpdated:
  "msg_type msg = ''constantsUpdated'' \<Longrightarrow>
   JSON_parse env (js_string (data msg)) = Inr parsed \<Longrightarrow>
   workerTask env w msg = (expireCache (w\<lparr>constants := parsed\<rparr>), Settled (Fulfilled NoValue))"
  by (simp add: workerTask_def handler_def fulfill_def)

lemma workerTask_constantsUpdated_error:
  "msg_type msg = ''constantsUpdated'' \<Longrightarrow>
   JSON_parse env (js_string (data msg)) = Inl err \<Longrightarrow>
   workerTask env w msg = (w, Settled (Rejected (Raised err)))"
  by (simp add: workerTask_def handler_def reject_def)



text \<open>
  After a payload that parses to an object with no location there is no path to read:
  the lookup is rejected with the error of \<open>path.join\<close> and nothing is read. After the
  payload \<open>null\<close> the next acquisition throws.
\<close>

lemma constantsUpdated_no_location:
  \<open>getTemplate demo_env
     (fst (workerTask demo_env cached_worker
        (no_fields\<lparr>msg_type := ''constantsUpdated'', data := Some ''{}''\<rparr>)))
     (Some ''ADT_A01.hbs'')
   = (expireCache (cached_worker\<lparr>constants := JObj []\<rparr>),
      Failed (Raised (Exn ''TypeError''
        ''The "path" argument must be of type string. Received undefined'')))\<close>
  by (simp add: workerTask_constantsUpdated js_string_def demo_defs getTemplate_def
      template_file_def expireCache_def)

lemma constantsUpdated_null:
  "GetHandlebarsInstance
     (fst (workerTask demo_env cached_worker
        (no_fields\<lparr>msg_type := ''constantsUpdated'', data := Some ''null''\<rparr>))) tm
   = Inl (Exn ''TypeError'' ''Cannot read property 'TEMPLATE_FILES_LOCATION' of null'')"
  by (simp add: workerTask_constantsUpdated js_string_def demo_defs GetHandlebarsInstance_null
      expireCache_def)


text \<open>
  Claim C9: when parsing the payload of a constants-updated task throws, the worker is
  left as it was, so a template that was cached is still what a lookup of its name
  returns.
\<close>

theorem constantsUpdated_parse_error:
  "msg_type msg = ''constantsUpdated'' \<and> JSON_parse env (js_string (data msg)) = Inl err \<longrightarrow>
     fst (workerTask env w msg) = w
     \<and> (map_of (compileCache w) (js_string name) = Some t \<longrightarrow>
          getTemplate env (fst (workerTask env w msg)) name = (w, Found t))"
  by (simp add: workerTask_constantsUpdated_error getTemplate_hit)

theorem constantsUpdated_parse_error_witness:
  "fst (workerTask demo_env cached_worker
          (no_fields\<lparr>msg_type := ''constantsUpdated'', data := Some ''not json''\<rparr>))
     = cached_worker
   \<and> getTemplate demo_env
       (fst (workerTask demo_env cached_worker
          (no_fields\<lparr>msg_type := ''constantsUpdated'', data := Some ''not json''\<rparr>)))
       (Some ''ADT_A01.hbs'')
     = (cached_worker, Found (Template 0 ''{{x}}''))"
  using constantsUpdated_parse_error
          [where msg = "no_fields\<lparr>msg_type := ''constantsUpdated'', data := Some ''not json''\<rparr>"
             and env = demo_env
             and err = "Exn ''SyntaxError'' ''Unexpected token o in JSON at position 1''"
             and w = cached_worker and name = "Some ''ADT_A01.hbs''"
             and t = "Template 0 ''{{x}}''"]
  by (simp add: js_string_def demo_env_simps demo_parse_def cached_worker_simps
      demo_getTemplate_hit)

text \<open>
  Claim C8, at a constants-updated task whose payload does not parse: the error leaves the
  handler, which has no \<open>try\<close> around this case, and the promise is rejected with the
  error object itself, which has no status and is no descriptor.
\<close>

theorem constantsUpdated_unparsable_rejection:
  "workerTask demo_env demo_worker
     (no_fields\<lparr>msg_type := ''constantsUpdated'', data := Some ''not json''\<rparr>)
   = (demo_worker,
      Settled (Rejected (Raised
        (Exn ''SyntaxError'' ''Unexpected token o in JSON at position 1''))))"
  by (simp add: workerTask_def handler_def reject_def js_string_def demo_env_simps demo_parse_def)

subsection \<open>One settlement for each task\<close>

lemma settled_keeps:
  "fulfill (Settled s) v = Settled s"
  "reject (Settled s) v = Settled s"
  "settle_result prefix (Settled s) r = Settled s"
  by (simp_all add: fulfill_def reject_def settle_result_def split: sum.splits)

lemma settles:
  "\<exists>s. fulfill p v = Settled s"
  "\<exists>s. reject p v = Settled s"
  "\<exists>s. settle_result prefix p r = Settled s"
  by (simp_all add: fulfill_def reject_def settle_result_def split: sum.splits promise.splits)

lemma check_encoding_settled:
  "check_encoding msg (Settled s) = Settled s"
  by (simp add: check_encoding_def settled_keeps Let_def)

lemma decode_replacementDictionary_settled:
  "fst (decode_replacementDictionary env msg (Settled s)) = Settled s"
  by (simp add: decode_replacementDictionary_def settled_keeps Let_def)

lemma decode_templatesMap_settled:
  "fst (decode_templatesMap env msg (Settled s)) = Settled s"
  by (simp add: decode_templatesMap_def settled_keeps Let_def)

lemma decode_message_settled:
  "fst (decode_message env msg (Settled s)) = Settled s"
  by (simp add: decode_message_def settled_keeps split: sum.splits)

lemma convert_decoded_settled:
  "convert_decoded env msg w rd tm (Settled s) = (w', p', thrown) \<Longrightarrow> p' = Settled s"
  using decode_message_settled [of env msg s]
  by (auto simp: convert_decoded_def settled_keeps split: prod.splits sum.splits if_splits)

lemma convert_decoded_settles:
  "convert_decoded env msg w rd tm p = (w', p', None) \<Longrightarrow> \<exists>s. p' = Settled s"
  by (auto simp: convert_decoded_def settles split: prod.splits sum.splits if_splits)

lemma convert_hl7_from_templatesMap:
  assumes "decode_replacementDictionary env msg (check_encoding msg p0) = (p3, Inr rd)"
    and "fst (decode_templatesMap env msg p3) = Settled s"
  shows "snd (convert_hl7 env msg w p0) = Settled s"
proof (cases "decode_templatesMap env msg p3")
  case (Pair p4 res)
  with assms have p4: "p4 = Settled s"
    by simp
  show ?thesis
  proof (cases res)
    case (Inl err)
    with Pair p4 assms show ?thesis
      by (simp add: convert_hl7_def convert_hl7_try_def settled_keeps)
  next
    case (Inr tm)
    obtain w' p' thrown where cd: "convert_decoded env msg w rd tm (Settled s) = (w', p', thrown)"
      by (cases "convert_decoded env msg w rd tm (Settled s)") auto
    then have "p' = Settled s"
      by (rule convert_decoded_settled)
    with cd Inr Pair p4 assms show ?thesis
      by (cases thrown) (simp_all add: convert_hl7_def convert_hl7_try_def settled_keeps)
  qed
qed

lemma convert_hl7_from_replacementDictionary:
  assumes "fst (decode_replacementDictionary env msg (check_encoding msg p0)) = Settled s"
  shows "snd (convert_hl7 env msg w p0) = Settled s"
proof (cases "decode_replacementDictionary env msg (check_encoding msg p0)")
  case (Pair p3 res)
  with assms have p3: "p3 = Settled s"
    by simp
  show ?thesis
  proof (cases res)
    case (Inl err)
    with Pair p3 show ?thesis
      by (simp add: convert_hl7_def convert_hl7_try_def settled_keeps)
  next
    case (Inr rd)
    with Pair p3 show ?thesis
      using convert_hl7_from_templatesMap [of env msg p0 p3 rd s w]
      by (simp add: decode_templatesMap_settled)
  qed
qed

lemma convert_hl7_from_check:
  "check_encoding msg p0 = Settled s \<Longrightarrow> snd (convert_hl7 env msg w p0) = Settled s"
  by (simp add: convert_hl7_from_replacementDictionary decode_replacementDictionary_settled)

lemma convert_hl7_settled:
  "snd (convert_hl7 env msg w (Settled s)) = Settled s"
  by (simp add: convert_hl7_from_check check_encoding_settled)

lemma convert_hl7_settles:
  "\<exists>s. snd (convert_hl7 env msg w p) = Settled s"
proof (cases "convert_hl7_try env msg w p")
  case (fields w' p' thrown)
  show ?thesis
  proof (cases thrown)
    case None
    with fields have "p' = snd (convert_hl7 env msg w p)"
      by (simp add: convert_hl7_def)
    moreover from fields None have "\<exists>s. p' = Settled s"
      by (auto simp: convert_hl7_try_def dest: convert_decoded_settles
          split: prod.splits sum.splits)
    ultimately show ?thesis by simp
  next
    case (Some err)
    with fields show ?thesis
      by (simp add: convert_hl7_def settles)
  qed
qed

lemma convert_hl7_template_settled:
  "snd (convert_hl7_template env msg w (Settled s)) = Settled s"
  by (auto simp: convert_hl7_template_def settled_keeps Let_def
      split: prod.splits sum.splits lookup.splits)

lemma convert_hl7_template_settles:
  "\<exists>s. snd (convert_hl7_template env msg w p) = Settled s"
  by (auto simp: convert_hl7_template_def settles Let_def
      split: prod.splits sum.splits lookup.splits)

subsection \<open>The checks of the inline conversion\<close>

lemma workerTask_inline:
  "msg_type msg = ''/api/convert/hl7'' \<Longrightarrow> workerTask env w msg = convert_hl7 env msg w Pending"
  by (simp add: workerTask_def handler_def split: prod.splits)

lemma check_encoding_message:
  "\<not> base64RegEx_test (messageBase64 msg) \<Longrightarrow>
   check_encoding msg Pending =
     Settled (Rejected (bad_request ''Message is not a base 64 encoded string.''))"
  by (simp add: check_encoding_def reject_def Let_def)

lemma check_encoding_template:
  "base64RegEx_test (messageBase64 msg) \<Longrightarrow> \<not> base64RegEx_test (templateBase64 msg) \<Longrightarrow>
   check_encoding msg Pending =
     Settled (Rejected (bad_request ''Template is not a base 64 encoded string.''))"
  by (simp add: check_encoding_def reject_def Let_def)

lemma check_encoding_passed:
  "base64RegEx_test (messageBase64 msg) \<Longrightarrow> base64RegEx_test (templateBase64 msg) \<Longrightarrow>
   check_encoding msg p = p"
  by (simp add: check_encoding_def Let_def)

lemma convert_hl7_message_rejected:
  "\<not> base64RegEx_test (messageBase64 msg) \<Longrightarrow>
   snd (convert_hl7 env msg w Pending) =
     Settled (Rejected (bad_request ''Message is not a base 64 encoded string.''))"
  by (simp add: convert_hl7_from_check check_encoding_message)

lemma convert_hl7_template_rejected:
  "base64RegEx_test (messageBase64 msg) \<Longrightarrow> \<not> base64RegEx_test (templateBase64 msg) \<Longrightarrow>
   snd (convert_hl7 env msg w Pending) =
     Settled (Rejected (bad_request ''Template is not a base 64 encoded string.''))"
  by (simp add: convert_hl7_from_check check_encoding_template)

lemma convert_hl7_replacementDictionary_rejected:
  "base64RegEx_test (messageBase64 msg) \<Longrightarrow> base64RegEx_test (templateBase64 msg) \<Longrightarrow>
   present (replacementDictionaryBase64 msg) \<Longrightarrow>
   \<not> base64RegEx_test (replacementDictionaryBase64 msg) \<Longrightarrow>
   snd (convert_hl7 env msg w Pending) =
     Settled (Rejected (bad_request ''replacementDictionary is not a base 64 encoded string.''))"
  by (rule convert_hl7_from_replacementDictionary)
     (simp add: check_encoding_passed decode_replacementDictionary_def reject_def)

lemma convert_hl7_templatesMap_rejected:
  "base64RegEx_test (messageBase64 msg) \<Longrightarrow> base64RegEx_test (templateBase64 msg) \<Longrightarrow>
   decode_replacementDictionary env msg Pending = (Pending, Inr rd) \<Longrightarrow>
   present (templatesMapBase64 msg) \<Longrightarrow>
   \<not> base64RegEx_test (templatesMapBase64 msg) \<Longrightarrow>
   snd (convert_hl7 env msg w Pending) =
     Settled (Rejected (bad_request ''templatesMap is not a base 64 encoded string.''))"
  by (rule convert_hl7_from_templatesMap [where ?p3.0 = Pending and rd = rd])
     (simp_all add: check_encoding_passed decode_templatesMap_def reject_def)

lemma decode_replacementDictionary_cases:
  "present (replacementDictionaryBase64 msg) \<longrightarrow> base64RegEx_test (replacementDictionaryBase64 msg)
   \<Longrightarrow> \<exists>r. decode_replacementDictionary env msg Pending = (Pending, r)"
  by (simp add: decode_replacementDictionary_def)

lemma convert_hl7_replacementDictionary_throws:
  "base64RegEx_test (messageBase64 msg) \<Longrightarrow> base64RegEx_test (templateBase64 msg) \<Longrightarrow>
   decode_replacementDictionary env msg Pending = (Pending, Inl err) \<Longrightarrow>
   snd (convert_hl7 env msg w Pending) = Settled (Rejected (bad_request (err_toString err)))"
  by (simp add: convert_hl7_def convert_hl7_try_def reject_def check_encoding_passed)

lemma convert_hl7_any_rejected:
  assumes "\<not> base64RegEx_test (messageBase64 msg) \<or> \<not> base64RegEx_test (templateBase64 msg)
    \<or> (present (replacementDictionaryBase64 msg) \<and> \<not> base64RegEx_test (replacementDictionaryBase64 msg))
    \<or> (present (templatesMapBase64 msg) \<and> \<not> base64RegEx_test (templatesMapBase64 msg))"
  shows "\<exists>text. snd (convert_hl7 env msg w Pending) = Settled (Rejected (bad_request text))"
proof -
  consider (m) "\<not> base64RegEx_test (messageBase64 msg)"
    | (t) "base64RegEx_test (messageBase64 msg)" "\<not> base64RegEx_test (templateBase64 msg)"
    | (r) "base64RegEx_test (messageBase64 msg)" "base64RegEx_test (templateBase64 msg)"
        "present (replacementDictionaryBase64 msg)"
        "\<not> base64RegEx_test (replacementDictionaryBase64 msg)"
    | (o) "base64RegEx_test (messageBase64 msg)" "base64RegEx_test (templateBase64 msg)"
        "present (replacementDictionaryBase64 msg) \<longrightarrow>
           base64RegEx_test (replacementDictionaryBase64 msg)"
        "present (templatesMapBase64 msg)" "\<not> base64RegEx_test (templatesMapBase64 msg)"
    using assms by blast
  then show ?thesis
  proof cases
    case m
    then show ?thesis using convert_hl7_message_rejected by blast
  next
    case t
    then show ?thesis using convert_hl7_template_rejected by blast
  next
    case r
    then show ?thesis using convert_hl7_replacementDictionary_rejected by blast
  next
    case o
    from o(3) obtain res where d: "decode_replacementDictionary env msg Pending = (Pending, res)"
      using decode_replacementDictionary_cases by blast
    show ?thesis
    proof (cases res)
      case (Inl err)
      with d o show ?thesis using convert_hl7_replacementDictionary_throws by blast
    next
      case (Inr rd)
      with d o show ?thesis using convert_hl7_templatesMap_rejected by blast
    qed
  qed
qed

lemma convert_hl7_passthrough:
  assumes "base64RegEx_test (messageBase64 msg)" and "base64RegEx_test (templateBase64 msg)"
    and "decode_replacementDictionary env msg Pending = (Pending, Inr rd)"
    and "decode_templatesMap env msg Pending = (Pending, Inr tm)"
    and "Buffer_from_base64 env (messageBase64 msg) = Inr decoded"
    and "JSON_parse env decoded = Inr m"
    and "decode_template env msg = Inr []"
  shows "convert_hl7 env msg w Pending =
           (w, Settled (case JSON_parse env (JSON_stringify env m) of
                          Inr copy \<Rightarrow> Fulfilled (ok (JObj [(''fhirResource'', copy)]))
                        | Inl err \<Rightarrow> Rejected (bad_request (err_toString err))))"
  using assms
  by (simp add: convert_hl7_def convert_hl7_try_def convert_decoded_def decode_message_def
      fulfill_def reject_def check_encoding_passed split: sum.splits)

lemma convert_hl7_result_error:
  assumes "base64RegEx_test (messageBase64 msg)" and "base64RegEx_test (templateBase64 msg)"
    and "decode_replacementDictionary env msg Pending = (Pending, Inr rd)"
    and "decode_templatesMap env msg Pending = (Pending, Inr tm)"
    and "decode_message env msg Pending = (Pending, m)"
    and "decode_template env msg = Inr ts" and "ts \<noteq> []"
    and "snd (compile_template env w tm ts) = Inr c"
    and "generateResult env (JObj [(''msg'', m)]) c rd = Inl err"
  shows "snd (convert_hl7 env msg w Pending) =
           Settled (Rejected (bad_request (''Unable to create result: '' @ err_toString err)))"
  using assms
  by (cases "compile_template env w tm ts")
     (simp add: convert_hl7_def convert_hl7_try_def convert_decoded_def settle_result_def
        reject_def check_encoding_passed)

subsection \<open>Settling, and the inline conversion\<close>

lemma handler_settled:
  "fst (snd (handler env msg w (Settled s))) = Settled s"
  using convert_hl7_settled [of env msg w s] convert_hl7_template_settled [of env msg w s]
  by (auto simp: handler_def settled_keeps split: prod.splits sum.splits)

lemma workerTask_settles:
  assumes "msg_type msg = ''/api/convert/hl7'' \<or> msg_type msg = ''/api/convert/hl7/:template''
     \<or> msg_type msg = ''templatesUpdated'' \<or> msg_type msg = ''constantsUpdated''"
  shows "\<exists>s. snd (workerTask env w msg) = Settled s"
proof -
  consider (i) "msg_type msg = ''/api/convert/hl7''"
    | (n) "msg_type msg = ''/api/convert/hl7/:template''"
    | (t) "msg_type msg = ''templatesUpdated''"
    | (c) "msg_type msg = ''constantsUpdated''"
    using assms by blast
  then show ?thesis
  proof cases
    case i
    then show ?thesis by (simp add: workerTask_inline convert_hl7_settles)
  next
    case n
    then show ?thesis by (simp add: workerTask_named convert_hl7_template_settles)
  next
    case t
    then show ?thesis by (simp add: workerTask_templatesUpdated)
  next
    case c
    then show ?thesis
      by (cases "JSON_parse env (js_string (data msg))")
         (simp_all add: workerTask_constantsUpdated workerTask_constantsUpdated_error)
  qed
qed

lemma workerTask_unrecognized:
  "msg_type msg \<noteq> ''/api/convert/hl7'' \<Longrightarrow> msg_type msg \<noteq> ''/api/convert/hl7/:template'' \<Longrightarrow>
   msg_type msg \<noteq> ''templatesUpdated'' \<Longrightarrow> msg_type msg \<noteq> ''constantsUpdated'' \<Longrightarrow>
   workerTask env w msg = (w, Pending)"
  by (simp add: workerTask_def handler_def)

text \<open>
  Claim C4: a task of one of the four types the \<open>switch\<close> knows ends with its promise
  settled, and with one settlement, the first: \<open>fulfill\<close> and \<open>reject\<close> on a settled promise
  change nothing, and neither does the whole handler when it is run on a settled promise.
  So an inline conversion whose message fails the alphabet check is rejected for that,
  whatever else fails after it. A task of any other type leaves the promise pending and
  the worker as it was.
\<close>

theorem workerTask_settles_once:
  "(msg_type msg = ''/api/convert/hl7'' \<or> msg_type msg = ''/api/convert/hl7/:template''
     \<or> msg_type msg = ''templatesUpdated'' \<or> msg_type msg = ''constantsUpdated''
     \<longrightarrow> (\<exists>s. snd (workerTask env w msg) = Settled s))
   \<and> fulfill (Settled s) v = Settled s
   \<and> reject (Settled s) v = Settled s
   \<and> fst (snd (handler env msg w (Settled s))) = Settled s
   \<and> (msg_type msg = ''/api/convert/hl7'' \<and> \<not> base64RegEx_test (messageBase64 msg) \<longrightarrow>
        snd (workerTask env w msg) =
          Settled (Rejected (bad_request ''Message is not a base 64 encoded string.'')))
   \<and> (msg_type msg \<noteq> ''/api/convert/hl7'' \<and> msg_type msg \<noteq> ''/api/convert/hl7/:template''
       \<and> msg_type msg \<noteq> ''templatesUpdated'' \<and> msg_type msg \<noteq> ''constantsUpdated''
     \<longrightarrow> workerTask env w msg = (w, Pending))"
  by (simp add: workerTask_settles settled_keeps handler_settled workerTask_unrecognized
      workerTask_inline convert_hl7_message_rejected)

lemma demo_tests:
  "base64RegEx_test None"
  "base64RegEx_test (Some [])"
  "base64RegEx_test (Some ''eyJhIjoxfQ=='')"
  "base64RegEx_test (Some ''eyJhIjoxZTQwMH0='')"
  "base64RegEx_test (Some ''e3t5fX0='')"
  "base64RegEx_test (Some ''bm90IGpzb24='')"
  "\<not> base64RegEx_test (Some ''!'')"
  by (simp_all add: base64RegEx_test_def js_string_def base64_class_def)

theorem workerTask_settles_once_witness:
  "snd (workerTask demo_env demo_worker
         (no_fields\<lparr>msg_type := ''/api/convert/hl7'', messageBase64 := Some ''!'',
                     templateBase64 := Some ''!''\<rparr>))
     = Settled (Rejected (bad_request ''Message is not a base 64 encoded string.''))
   \<and> (\<exists>s. snd (workerTask demo_env demo_worker (no_fields\<lparr>msg_type := ''templatesUpdated''\<rparr>))
            = Settled s)
   \<and> workerTask demo_env demo_worker (no_fields\<lparr>msg_type := ''/api/convert/cda''\<rparr>)
       = (demo_worker, Pending)"
  using workerTask_settles_once
          [where msg = "no_fields\<lparr>msg_type := ''/api/convert/hl7'', messageBase64 := Some ''!'',
                     templateBase64 := Some ''!''\<rparr>" and env = demo_env and w = demo_worker]
        workerTask_settles_once
          [where msg = "no_fields\<lparr>msg_type := ''templatesUpdated''\<rparr>"
             and env = demo_env and w = demo_worker]
        workerTask_settles_once
          [where msg = "no_fields\<lparr>msg_type := ''/api/convert/cda''\<rparr>"
             and env = demo_env and w = demo_worker]
  by (simp add: demo_tests)

lemmas decode_defs =
  decode_replacementDictionary_def decode_templatesMap_def decode_message_def
  decode_template_def present_def js_string_def

text \<open>
  Claim C5, amended: an inline conversion whose message and template pass the alphabet
  check, whose replacement dictionary and override map, when present, pass it too and
  decode and parse, whose message decodes and parses, and whose template text is empty or
  missing, is fulfilled with status 200 and, under \<open>fhirResource\<close>, the copy of the parsed
  message that \<open>JSON.parse(JSON.stringify(message))\<close> returns; the worker is unchanged. (Were
  that expression to throw, the outer \<open>catch\<close> would reject with status 400.) The copy is
  the message itself whenever serialising and parsing again gives the message back, as
  for \<open>{"a":1}\<close>.
\<close>

theorem convert_hl7_identity:
  assumes "msg_type msg = ''/api/convert/hl7''"
    and "base64RegEx_test (messageBase64 msg)" and "base64RegEx_test (templateBase64 msg)"
    and "decode_replacementDictionary env msg Pending = (Pending, Inr rd)"
    and "decode_templatesMap env msg Pending = (Pending, Inr tm)"
    and "Buffer_from_base64 env (messageBase64 msg) = Inr decoded"
    and "JSON_parse env decoded = Inr m"
    and "decode_template env msg = Inr []"
  shows "workerTask env w msg =
           (w, Settled (case JSON_parse env (JSON_stringify env m) of
                          Inr copy \<Rightarrow>
                            Fulfilled (Response
                              \<lparr>status = 200,
                               resultMsg = Envelope (JObj [(''fhirResource'', copy)])\<rparr>)
                        | Inl err \<Rightarrow>
                            Rejected (Response
                              \<lparr>status = 400,
                               resultMsg = Descriptor
                                 \<lparr>kind = BadRequest, message = err_toString err\<rparr>\<rparr>)))"
  using assms
  by (simp add: workerTask_inline convert_hl7_passthrough ok_def bad_request_def
      errorMessage_def split: sum.splits)

text \<open>
  The scenario of the claim, where the message is the encoding of \<open>{"a":1}\<close> and the
  template the encoding of the empty text: the payload is \<open>{"a":1}\<close> under \<open>fhirResource\<close>.
  And a message that the copy changes: \<open>1e400\<close> is parsed to infinity, which is serialised
  as \<open>null\<close>.
\<close>

theorem convert_hl7_identity_witness:
  \<open>workerTask demo_env demo_worker
     (no_fields\<lparr>msg_type := ''/api/convert/hl7'', messageBase64 := Some ''eyJhIjoxfQ=='',
                 templateBase64 := Some []\<rparr>)
   = (demo_worker, Settled (Fulfilled (Response
        \<lparr>status = 200,
         resultMsg = Envelope (JObj [(''fhirResource'', JObj [(''a'', JNum (Finite 1))])])\<rparr>)))
   \<and> JSON_parse demo_env ''{"a":1e400}'' = Inr (JObj [(''a'', JNum PlusInfinity)])
   \<and> workerTask demo_env demo_worker
     (no_fields\<lparr>msg_type := ''/api/convert/hl7'', messageBase64 := Some ''eyJhIjoxZTQwMH0='',
                 templateBase64 := Some []\<rparr>)
   = (demo_worker, Settled (Fulfilled (Response
        \<lparr>status = 200,
         resultMsg = Envelope (JObj [(''fhirResource'', JObj [(''a'', JNull)])])\<rparr>)))\<close>
proof -
  let ?one = "no_fields\<lparr>msg_type := ''/api/convert/hl7'', messageBase64 := Some ''eyJhIjoxfQ=='',
                 templateBase64 := Some []\<rparr>"
  let ?big = "no_fields\<lparr>msg_type := ''/api/convert/hl7'',
                 messageBase64 := Some ''eyJhIjoxZTQwMH0='', templateBase64 := Some []\<rparr>"
  have 1: "workerTask demo_env demo_worker ?one
             = (demo_worker,
                Settled (case JSON_parse demo_env
                                (JSON_stringify demo_env (JObj [(''a'', JNum (Finite 1))])) of
                           Inr copy \<Rightarrow>
                             Fulfilled (Response
                               \<lparr>status = 200,
                                resultMsg = Envelope (JObj [(''fhirResource'', copy)])\<rparr>)
                         | Inl err \<Rightarrow>
                             Rejected (Response
                               \<lparr>status = 400,
                                resultMsg = Descriptor
                                  \<lparr>kind = BadRequest, message = err_toString err\<rparr>\<rparr>)))"
    by (rule convert_hl7_identity
          [where rd = "JObj []" and tm = None and decoded = \<open>''{"a":1}''\<close>])
       (simp_all add: demo_tests decode_defs demo_defs no_fields_simps)
  have 2: "workerTask demo_env demo_worker ?big
             = (demo_worker,
                Settled (case JSON_parse demo_env
                                (JSON_stringify demo_env (JObj [(''a'', JNum PlusInfinity)])) of
                           Inr copy \<Rightarrow>
                             Fulfilled (Response
                               \<lparr>status = 200,
                                resultMsg = Envelope (JObj [(''fhirResource'', copy)])\<rparr>)
                         | Inl err \<Rightarrow>
                             Rejected (Response
                               \<lparr>status = 400,
                                resultMsg = Descriptor
                                  \<lparr>kind = BadRequest, message = err_toString err\<rparr>\<rparr>)))"
    by (rule convert_hl7_identity
          [where rd = "JObj []" and tm = None and decoded = \<open>''{"a":1e400}''\<close>])
       (simp_all add: demo_tests decode_defs demo_defs no_fields_simps)
  from 1 2 show ?thesis
    by (simp add: demo_defs)
qed

text \<open>
  Claim C5, as stated, fails: the message decodes and parses and the template text is
  empty, but the replacement dictionary fails the alphabet check, and the task is
  rejected with status 400.
\<close>

theorem convert_hl7_identity_counterexample:
  \<open>decode_message demo_env
     (no_fields\<lparr>msg_type := ''/api/convert/hl7'', messageBase64 := Some ''eyJhIjoxfQ=='',
                 templateBase64 := Some [], replacementDictionaryBase64 := Some ''!''\<rparr>) Pending
     = (Pending, JObj [(''a'', JNum (Finite 1))])
   \<and> decode_template demo_env
       (no_fields\<lparr>msg_type := ''/api/convert/hl7'', messageBase64 := Some ''eyJhIjoxfQ=='',
                   templateBase64 := Some [], replacementDictionaryBase64 := Some ''!''\<rparr>)
     = Inr []
   \<and> snd (workerTask demo_env demo_worker
       (no_fields\<lparr>msg_type := ''/api/convert/hl7'', messageBase64 := Some ''eyJhIjoxfQ=='',
                   templateBase64 := Some [], replacementDictionaryBase64 := Some ''!''\<rparr>))
     = Settled (Rejected (Response
         \<lparr>status = 400,
          resultMsg = Descriptor
            \<lparr>kind = BadRequest,
             message = ''replacementDictionary is not a base 64 encoded string.''\<rparr>\<rparr>))\<close>
  by (simp add: workerTask_inline convert_hl7_replacementDictionary_rejected demo_tests
      decode_defs demo_defs no_fields_simps bad_request_def errorMessage_def)


text \<open>
  Claim C6, amended: in an inline conversion, a field that is present and fails the
  alphabet check leads to a rejection with status 400 and kind \<open>BadRequest\<close>. The text names
  the first field that fails, in the order message, template, replacement dictionary,
  override map, whatever the decoder and the parser return; for the override map this
  needs the replacement dictionary, when present, to decode and parse.
\<close>

theorem convert_hl7_alphabet_check:
  "msg_type msg = ''/api/convert/hl7'' \<longrightarrow>
   (\<not> base64RegEx_test (messageBase64 msg) \<or> \<not> base64RegEx_test (templateBase64 msg)
    \<or> (present (replacementDictionaryBase64 msg)
        \<and> \<not> base64RegEx_test (replacementDictionaryBase64 msg))
    \<or> (present (templatesMapBase64 msg) \<and> \<not> base64RegEx_test (templatesMapBase64 msg))
    \<longrightarrow> (\<exists>text. snd (workerTask env w msg) =
           Settled (Rejected (Response \<lparr>status = 400,
             resultMsg = Descriptor \<lparr>kind = BadRequest, message = text\<rparr>\<rparr>))))
   \<and> (\<not> base64RegEx_test (messageBase64 msg) \<longrightarrow>
        snd (workerTask env w msg) =
          Settled (Rejected (bad_request ''Message is not a base 64 encoded string.'')))
   \<and> (base64RegEx_test (messageBase64 msg) \<and> \<not> base64RegEx_test (templateBase64 msg) \<longrightarrow>
        snd (workerTask env w msg) =
          Settled (Rejected (bad_request ''Template is not a base 64 encoded string.'')))
   \<and> (base64RegEx_test (messageBase64 msg) \<and> base64RegEx_test (templateBase64 msg)
       \<and> present (replacementDictionaryBase64 msg)
       \<and> \<not> base64RegEx_test (replacementDictionaryBase64 msg) \<longrightarrow>
        snd (workerTask env w msg) =
          Settled (Rejected
            (bad_request ''replacementDictionary is not a base 64 encoded string.'')))
   \<and> (base64RegEx_test (messageBase64 msg) \<and> base64RegEx_test (templateBase64 msg)
       \<and> decode_replacementDictionary env msg Pending = (Pending, Inr rd)
       \<and> present (templatesMapBase64 msg)
       \<and> \<not> base64RegEx_test (templatesMapBase64 msg) \<longrightarrow>
        snd (workerTask env w msg) =
          Settled (Rejected (bad_request ''templatesMap is not a base 64 encoded string.'')))"
proof (intro impI conjI)
  assume t: "msg_type msg = ''/api/convert/hl7''"
    and "\<not> base64RegEx_test (messageBase64 msg) \<or> \<not> base64RegEx_test (templateBase64 msg)
    \<or> (present (replacementDictionaryBase64 msg)
        \<and> \<not> base64RegEx_test (replacementDictionaryBase64 msg))
    \<or> (present (templatesMapBase64 msg) \<and> \<not> base64RegEx_test (templatesMapBase64 msg))"
  then obtain reason where
    "snd (convert_hl7 env msg w Pending) = Settled (Rejected (bad_request reason))"
    using convert_hl7_any_rejected by blast
  with t show "\<exists>text. snd (workerTask env w msg) =
           Settled (Rejected (Response \<lparr>status = 400,
             resultMsg = Descriptor \<lparr>kind = BadRequest, message = text\<rparr>\<rparr>))"
    by (simp add: workerTask_inline bad_request_def errorMessage_def)
next
  assume "msg_type msg = ''/api/convert/hl7''" and "\<not> base64RegEx_test (messageBase64 msg)"
  then show "snd (workerTask env w msg) =
          Settled (Rejected (bad_request ''Message is not a base 64 encoded string.''))"
    by (simp add: workerTask_inline convert_hl7_message_rejected)
next
  assume "msg_type msg = ''/api/convert/hl7''"
    and "base64RegEx_test (messageBase64 msg) \<and> \<not> base64RegEx_test (templateBase64 msg)"
  then show "snd (workerTask env w msg) =
          Settled (Rejected (bad_request ''Template is not a base 64 encoded string.''))"
    by (simp add: workerTask_inline convert_hl7_template_rejected)
next
  assume "msg_type msg = ''/api/convert/hl7''"
    and "base64RegEx_test (messageBase64 msg) \<and> base64RegEx_test (templateBase64 msg)
       \<and> present (replacementDictionaryBase64 msg)
       \<and> \<not> base64RegEx_test (replacementDictionaryBase64 msg)"
  then show "snd (workerTask env w msg) =
          Settled (Rejected
            (bad_request ''replacementDictionary is not a base 64 encoded string.''))"
    by (simp add: workerTask_inline convert_hl7_replacementDictionary_rejected)
next
  assume "msg_type msg = ''/api/convert/hl7''"
    and "base64RegEx_test (messageBase64 msg) \<and> base64RegEx_test (templateBase64 msg)
       \<and> decode_replacementDictionary env msg Pending = (Pending, Inr rd)
       \<and> present (templatesMapBase64 msg)
       \<and> \<not> base64RegEx_test (templatesMapBase64 msg)"
  then show "snd (workerTask env w msg) =
          Settled (Rejected (bad_request ''templatesMap is not a base 64 encoded string.''))"
    by (simp add: workerTask_inline convert_hl7_templatesMap_rejected [where rd = rd])
qed

text \<open>
  Claim C6, as stated, fails: the override map is present and fails the alphabet check,
  but the replacement dictionary, which is decoded before that check, does not parse, and
  the text of the rejection is that of the parser's error.
\<close>

theorem convert_hl7_alphabet_check_counterexample:
  "present (templatesMapBase64
      (no_fields\<lparr>msg_type := ''/api/convert/hl7'', messageBase64 := Some ''eyJhIjoxfQ=='',
                  replacementDictionaryBase64 := Some ''bm90IGpzb24='',
                  templatesMapBase64 := Some ''!''\<rparr>))
   \<and> \<not> base64RegEx_test (templatesMapBase64
      (no_fields\<lparr>msg_type := ''/api/convert/hl7'', messageBase64 := Some ''eyJhIjoxfQ=='',
                  replacementDictionaryBase64 := Some ''bm90IGpzb24='',
                  templatesMapBase64 := Some ''!''\<rparr>))
   \<and> snd (workerTask demo_env demo_worker
      (no_fields\<lparr>msg_type := ''/api/convert/hl7'', messageBase64 := Some ''eyJhIjoxfQ=='',
                  replacementDictionaryBase64 := Some ''bm90IGpzb24='',
                  templatesMapBase64 := Some ''!''\<rparr>))
     = Settled (Rejected (Response
         \<lparr>status = 400,
          resultMsg = Descriptor
            \<lparr>kind = BadRequest,
             message = ''SyntaxError: Unexpected token o in JSON at position 1''\<rparr>\<rparr>))"
proof -
  let ?msg = "no_fields\<lparr>msg_type := ''/api/convert/hl7'', messageBase64 := Some ''eyJhIjoxfQ=='',
                  replacementDictionaryBase64 := Some ''bm90IGpzb24='',
                  templatesMapBase64 := Some ''!''\<rparr>"
  have "decode_replacementDictionary demo_env ?msg Pending
          = (Pending, Inl (Exn ''SyntaxError'' ''Unexpected token o in JSON at position 1''))"
    by (simp add: decode_defs demo_defs demo_tests no_fields_simps)
  then have "snd (convert_hl7 demo_env ?msg demo_worker Pending)
          = Settled (Rejected (bad_request (err_toString (Exn ''SyntaxError'' ''Unexpected token o in JSON at position 1''))))"
    by (intro convert_hl7_replacementDictionary_throws) (simp_all add: demo_tests no_fields_simps)
  then show ?thesis
    by (simp add: workerTask_inline present_def demo_tests bad_request_def errorMessage_def
        err_toString_def)
qed

theorem convert_hl7_alphabet_check_witness:
  "snd (workerTask demo_env demo_worker
      (no_fields\<lparr>msg_type := ''/api/convert/hl7'', messageBase64 := Some ''!'',
                  templateBase64 := Some ''!''\<rparr>))
     = Settled (Rejected (bad_request ''Message is not a base 64 encoded string.''))
   \<and> snd (workerTask demo_env demo_worker
      (no_fields\<lparr>msg_type := ''/api/convert/hl7'', messageBase64 := Some ''eyJhIjoxfQ=='',
                  templateBase64 := Some ''!''\<rparr>))
     = Settled (Rejected (bad_request ''Template is not a base 64 encoded string.''))
   \<and> snd (workerTask demo_env demo_worker
      (no_fields\<lparr>msg_type := ''/api/convert/hl7'', messageBase64 := Some ''eyJhIjoxfQ=='',
                  replacementDictionaryBase64 := Some ''!''\<rparr>))
     = Settled (Rejected (bad_request ''replacementDictionary is not a base 64 encoded string.''))
   \<and> snd (workerTask demo_env demo_worker
      (no_fields\<lparr>msg_type := ''/api/convert/hl7'', messageBase64 := Some ''eyJhIjoxfQ=='',
                  templatesMapBase64 := Some ''!''\<rparr>))
     = Settled (Rejected (bad_request ''templatesMap is not a base 64 encoded string.''))"
  using convert_hl7_alphabet_check
          [where msg = "no_fields\<lparr>msg_type := ''/api/convert/hl7'', messageBase64 := Some ''!'',
                  templateBase64 := Some ''!''\<rparr>" and env = demo_env and w = demo_worker]
        convert_hl7_alphabet_check
          [where msg = "no_fields\<lparr>msg_type := ''/api/convert/hl7'',
                  messageBase64 := Some ''eyJhIjoxfQ=='', templateBase64 := Some ''!''\<rparr>"
             and env = demo_env and w = demo_worker]
        convert_hl7_alphabet_check
          [where msg = "no_fields\<lparr>msg_type := ''/api/convert/hl7'',
                  messageBase64 := Some ''eyJhIjoxfQ=='',
                  replacementDictionaryBase64 := Some ''!''\<rparr>"
             and env = demo_env and w = demo_worker]
        convert_hl7_alphabet_check
          [where msg = "no_fields\<lparr>msg_type := ''/api/convert/hl7'',
                  messageBase64 := Some ''eyJhIjoxfQ=='', templatesMapBase64 := Some ''!''\<rparr>"
             and env = demo_env and w = demo_worker and rd = "JObj []"]
  by (simp add: demo_tests present_def decode_replacementDictionary_def no_fields_simps)

subsection \<open>Assembling the result\<close>

lemma generateResult_Inr:
  "generateResult env ctx t rd = Inr r \<longleftrightarrow>
     (\<exists>rendered processed parsed merged.
        render env t ctx = Inr rendered
        \<and> jsonProcessor_Process env rendered = Inr processed
        \<and> JSON_parse env processed = Inr parsed
        \<and> resourceMerger_Process env parsed rd = Inr merged
        \<and> r = JObj [(''fhirResource'', merged)])"
  by (auto simp: generateResult_def split: sum.splits)

lemma named_task_result_error:
  assumes "msg_type msg = ''/api/convert/hl7/:template''"
    and "present (messageContent msg)"
    and "JSON_parse env (js_string (messageContent msg)) = Inr m"
    and "snd (getTemplate env w (templateName msg)) = Found c"
    and "generateResult env (JObj [(''msg'', m)]) c JNull = Inl err"
  shows "snd (workerTask env w msg) =
           Settled (Rejected (bad_request (''Error during template evaluation. '' @ err_toString err)))"
  using assms
  by (auto simp: workerTask_named convert_hl7_template_def settle_result_def reject_def
      split: prod.splits lookup.splits)

text \<open>
  Claim C7, amended: \<open>generateResult\<close> renders the template, passes the rendered text
  through the post-processor, parses the processed text, merges the parsed value with the
  replacement dictionary, and wraps the outcome under \<open>fhirResource\<close>; it returns exactly
  when the four steps do. When it throws, the \<open>try\<close> around it rejects a pending promise
  with status 400 and kind \<open>BadRequest\<close>, and so is a named conversion rejected whose
  message was accepted and whose template was found, and an inline conversion whose
  fields were accepted and whose template was compiled.
\<close>

theorem generateResult_pipeline:
  "(generateResult env ctx t rd = Inr r \<longleftrightarrow>
     (\<exists>rendered processed parsed merged.
        render env t ctx = Inr rendered
        \<and> jsonProcessor_Process env rendered = Inr processed
        \<and> JSON_parse env processed = Inr parsed
        \<and> resourceMerger_Process env parsed rd = Inr merged
        \<and> r = JObj [(''fhirResource'', merged)]))
   \<and> (generateResult env ctx t rd = Inl err \<longrightarrow>
        settle_result prefix Pending (generateResult env ctx t rd) =
          Settled (Rejected (Response \<lparr>status = 400,
            resultMsg = Descriptor \<lparr>kind = BadRequest, message = prefix @ err_toString err\<rparr>\<rparr>)))
   \<and> (msg_type msg = ''/api/convert/hl7/:template'' \<and> present (messageContent msg)
       \<and> JSON_parse env (js_string (messageContent msg)) = Inr m
       \<and> snd (getTemplate env w (templateName msg)) = Found c
       \<and> generateResult env (JObj [(''msg'', m)]) c JNull = Inl err \<longrightarrow>
        snd (workerTask env w msg) =
          Settled (Rejected (Response \<lparr>status = 400,
            resultMsg = Descriptor \<lparr>kind = BadRequest,
              message = ''Error during template evaluation. '' @ err_toString err\<rparr>\<rparr>)))
   \<and> (msg_type msg = ''/api/convert/hl7''
       \<and> base64RegEx_test (messageBase64 msg) \<and> base64RegEx_test (templateBase64 msg)
       \<and> decode_replacementDictionary env msg Pending = (Pending, Inr rd)
       \<and> decode_templatesMap env msg Pending = (Pending, Inr tm)
       \<and> decode_message env msg Pending = (Pending, m)
       \<and> decode_template env msg = Inr ts \<and> ts \<noteq> []
       \<and> snd (compile_template env w tm ts) = Inr c
       \<and> generateResult env (JObj [(''msg'', m)]) c rd = Inl err \<longrightarrow>
        snd (workerTask env w msg) =
          Settled (Rejected (Response \<lparr>status = 400,
            resultMsg = Descriptor \<lparr>kind = BadRequest,
              message = ''Unable to create result: '' @ err_toString err\<rparr>\<rparr>)))"
proof (intro conjI impI)
  show "generateResult env ctx t rd = Inr r \<longleftrightarrow>
     (\<exists>rendered processed parsed merged.
        render env t ctx = Inr rendered
        \<and> jsonProcessor_Process env rendered = Inr processed
        \<and> JSON_parse env processed = Inr parsed
        \<and> resourceMerger_Process env parsed rd = Inr merged
        \<and> r = JObj [(''fhirResource'', merged)])"
    by (rule generateResult_Inr)
next
  assume "generateResult env ctx t rd = Inl err"
  then show "settle_result prefix Pending (generateResult env ctx t rd) =
          Settled (Rejected (Response \<lparr>status = 400,
            resultMsg = Descriptor \<lparr>kind = BadRequest, message = prefix @ err_toString err\<rparr>\<rparr>))"
    by (simp add: settle_result_def reject_def bad_request_def errorMessage_def)
next
  assume "msg_type msg = ''/api/convert/hl7/:template'' \<and> present (messageContent msg)
       \<and> JSON_parse env (js_string (messageContent msg)) = Inr m
       \<and> snd (getTemplate env w (templateName msg)) = Found c
       \<and> generateResult env (JObj [(''msg'', m)]) c JNull = Inl err"
  then show "snd (workerTask env w msg) =
          Settled (Rejected (Response \<lparr>status = 400,
            resultMsg = Descriptor \<lparr>kind = BadRequest,
              message = ''Error during template evaluation. '' @ err_toString err\<rparr>\<rparr>))"
    by (simp add: named_task_result_error bad_request_def errorMessage_def)
next
  assume "msg_type msg = ''/api/convert/hl7''
       \<and> base64RegEx_test (messageBase64 msg) \<and> base64RegEx_test (templateBase64 msg)
       \<and> decode_replacementDictionary env msg Pending = (Pending, Inr rd)
       \<and> decode_templatesMap env msg Pending = (Pending, Inr tm)
       \<and> decode_message env msg Pending = (Pending, m)
       \<and> decode_template env msg = Inr ts \<and> ts \<noteq> []
       \<and> snd (compile_template env w tm ts) = Inr c
       \<and> generateResult env (JObj [(''msg'', m)]) c rd = Inl err"
  then show "snd (workerTask env w msg) =
          Settled (Rejected (Response \<lparr>status = 400,
            resultMsg = Descriptor \<lparr>kind = BadRequest,
              message = ''Unable to create result: '' @ err_toString err\<rparr>\<rparr>))"
    using convert_hl7_result_error [of msg env rd tm m ts w c err]
    by (simp add: workerTask_inline bad_request_def errorMessage_def)
qed

text \<open>
  Claim C7, as stated, fails: the text that is parsed is not the rendered text. Here the
  rendered text does not parse, and the result is assembled all the same, from the
  post-processed text.
\<close>

theorem generateResult_order_counterexample:
  \<open>render demo_env (Template 0 ''{{x}}'') (JObj [(''msg'', JObj [])]) = Inr ''{"a":1,}''
   \<and> JSON_parse demo_env ''{"a":1,}''
       = Inl (Exn ''SyntaxError'' ''Unexpected token } in JSON at position 7'')
   \<and> generateResult demo_env (JObj [(''msg'', JObj [])]) (Template 0 ''{{x}}'') JNull
       = Inr (JObj [(''fhirResource'', JObj [(''a'', JNum (Finite 1))])])\<close>
  by (simp add: generateResult_def demo_defs)


theorem generateResult_pipeline_witness:
  "generateResult demo_env (JObj [(''msg'', JObj [])]) (Template 0 ''{{x}}'') JNull
     = Inr (JObj [(''fhirResource'', JObj [(''a'', JNum (Finite 1))])])
   \<and> settle_result ''Unable to create result: '' Pending
        (generateResult demo_env (JObj [(''msg'', JObj [])]) (Template 0 ''{{y}}'') JNull)
     = Settled (Rejected (Response \<lparr>status = 400,
         resultMsg = Descriptor \<lparr>kind = BadRequest,
           message = ''Unable to create result: Error: Missing helper''\<rparr>\<rparr>))
   \<and> snd (workerTask demo_env (demo_worker\<lparr>compileCache := [(''bad.hbs'', Template 0 ''{{y}}'')]\<rparr>)
          (no_fields\<lparr>msg_type := ''/api/convert/hl7/:template'', messageContent := Some ''{}'',
                      templateName := Some ''bad.hbs''\<rparr>))
     = Settled (Rejected (Response \<lparr>status = 400,
         resultMsg = Descriptor \<lparr>kind = BadRequest,
           message = ''Error during template evaluation. Error: Missing helper''\<rparr>\<rparr>))
   \<and> snd (workerTask demo_env demo_worker
          (no_fields\<lparr>msg_type := ''/api/convert/hl7'', messageBase64 := Some ''eyJhIjoxfQ=='',
                      templateBase64 := Some ''e3t5fX0=''\<rparr>))
     = Settled (Rejected (Response \<lparr>status = 400,
         resultMsg = Descriptor \<lparr>kind = BadRequest,
           message = ''Unable to create result: Error: Missing helper''\<rparr>\<rparr>))"
proof -
  let ?inline = "no_fields\<lparr>msg_type := ''/api/convert/hl7'',
                   messageBase64 := Some ''eyJhIjoxfQ=='', templateBase64 := Some ''e3t5fX0=''\<rparr>"
  have inline: "msg_type ?inline = ''/api/convert/hl7''
       \<and> base64RegEx_test (messageBase64 ?inline) \<and> base64RegEx_test (templateBase64 ?inline)
       \<and> decode_replacementDictionary demo_env ?inline Pending = (Pending, Inr (JObj []))
       \<and> decode_templatesMap demo_env ?inline Pending = (Pending, Inr None)
       \<and> decode_message demo_env ?inline Pending = (Pending, JObj [(''a'', JNum (Finite 1))])
       \<and> decode_template demo_env ?inline = Inr ''{{y}}'' \<and> ''{{y}}'' \<noteq> []
       \<and> snd (compile_template demo_env demo_worker None ''{{y}}'') = Inr (Template 0 ''{{y}}'')
       \<and> generateResult demo_env (JObj [(''msg'', JObj [(''a'', JNum (Finite 1))])])
            (Template 0 ''{{y}}'') (JObj [])
           = Inl (Exn ''Error'' ''Missing helper'')"
    by (simp add: demo_tests decode_defs demo_defs no_fields_simps lookup_defs demo_worker_simps
        generateResult_def)
  let ?ctx = "JObj [(''msg'', JObj [])]"
  let ?w = "demo_worker\<lparr>compileCache := [(''bad.hbs'', Template 0 ''{{y}}'')]\<rparr>"
  let ?msg = "no_fields\<lparr>msg_type := ''/api/convert/hl7/:template'', messageContent := Some ''{}'',
                      templateName := Some ''bad.hbs''\<rparr>"
  have fails: "generateResult demo_env ?ctx (Template 0 ''{{y}}'') JNull
                 = Inl (Exn ''Error'' ''Missing helper'')"
    by (simp add: generateResult_def demo_defs)
  have stages: "\<exists>rendered processed parsed merged.
        render demo_env (Template 0 ''{{x}}'') ?ctx = Inr rendered
        \<and> jsonProcessor_Process demo_env rendered = Inr processed
        \<and> JSON_parse demo_env processed = Inr parsed
        \<and> resourceMerger_Process demo_env parsed JNull = Inr merged
        \<and> JObj [(''fhirResource'', JObj [(''a'', JNum (Finite 1))])] = JObj [(''fhirResource'', merged)]"
    by (simp add: demo_defs)
  have task: "msg_type ?msg = ''/api/convert/hl7/:template'' \<and> present (messageContent ?msg)
       \<and> JSON_parse demo_env (js_string (messageContent ?msg)) = Inr (JObj [])
       \<and> snd (getTemplate demo_env ?w (templateName ?msg)) = Found (Template 0 ''{{y}}'')
       \<and> generateResult demo_env (JObj [(''msg'', JObj [])]) (Template 0 ''{{y}}'') JNull
           = Inl (Exn ''Error'' ''Missing helper'')"
    by (simp add: present_def js_string_def demo_defs getTemplate_def fails)
  note p = generateResult_pipeline
  from p [where env = demo_env and ctx = ?ctx and t = "Template 0 ''{{x}}''" and rd = JNull
            and r = "JObj [(''fhirResource'', JObj [(''a'', JNum (Finite 1))])]"] stages
  have 1: "generateResult demo_env ?ctx (Template 0 ''{{x}}'') JNull
             = Inr (JObj [(''fhirResource'', JObj [(''a'', JNum (Finite 1))])])"
    by blast
  from p [where env = demo_env and ctx = ?ctx and t = "Template 0 ''{{y}}''" and rd = JNull
            and err = "Exn ''Error'' ''Missing helper''"
            and prefix = "''Unable to create result: ''"] fails
  have 2: "settle_result ''Unable to create result: '' Pending
             (generateResult demo_env ?ctx (Template 0 ''{{y}}'') JNull)
           = Settled (Rejected (Response \<lparr>status = 400,
               resultMsg = Descriptor \<lparr>kind = BadRequest,
                 message = ''Unable to create result: ''
                   @ err_toString (Exn ''Error'' ''Missing helper'')\<rparr>\<rparr>))"
    by blast
  from p [where env = demo_env and msg = ?msg and w = ?w and m = "JObj []"
            and c = "Template 0 ''{{y}}''" and err = "Exn ''Error'' ''Missing helper''"] task
  have 3: "snd (workerTask demo_env ?w ?msg)
           = Settled (Rejected (Response \<lparr>status = 400,
               resultMsg = Descriptor \<lparr>kind = BadRequest,
                 message = ''Error during template evaluation. ''
                   @ err_toString (Exn ''Error'' ''Missing helper'')\<rparr>\<rparr>))"
    by blast
  from p [where env = demo_env and msg = ?inline and w = demo_worker and rd = "JObj []"
            and tm = None and m = "JObj [(''a'', JNum (Finite 1))]" and ts = "''{{y}}''"
            and c = "Template 0 ''{{y}}''" and err = "Exn ''Error'' ''Missing helper''"] inline
  have 4: "snd (workerTask demo_env demo_worker ?inline)
           = Settled (Rejected (Response \<lparr>status = 400,
               resultMsg = Descriptor \<lparr>kind = BadRequest,
                 message = ''Unable to create result: ''
                   @ err_toString (Exn ''Error'' ''Missing helper'')\<rparr>\<rparr>))"
    by blast
  from 1 2 3 4 show ?thesis
    by (simp add: err_toString_def)
qed

end
